theory Spec2Isabelle
  imports Complex_Main "HOL-Library.Word" "HOL-Library.Monad_Syntax"
begin

unbundle bit_operations_syntax

section \<open>Data model (neurax.h, neurax\_private.h)\<close>

text \<open>
  The C enumerations. \<open>neurax_error_t\<close> and \<open>neurax_data_type_t\<close> are closed
  enumerations and become datatypes. The activation and pooling selectors are validated
  against their largest enumerator by the code, so a selector is kept as the raw unsigned
  32-bit value the enum object holds (the enumerators are all non-negative, which makes the
  underlying type \<open>unsigned int\<close> on the Linux targets of this library).
\<close>

datatype neurax_error =
    NEURAX_SUCCESS
  | NEURAX_ERROR_INVALID_PARAM
  | NEURAX_ERROR_NOT_INITIALIZED
  | NEURAX_ERROR_DEVICE_NOT_FOUND
  | NEURAX_ERROR_MEMORY_ALLOCATION
  | NEURAX_ERROR_HARDWARE_FAILURE
  | NEURAX_ERROR_TIMEOUT
  | NEURAX_ERROR_INVALID_MODEL
  | NEURAX_ERROR_BUFFER_OVERFLOW

datatype neurax_data_type =
    NEURAX_DATA_UINT8
  | NEURAX_DATA_INT8
  | NEURAX_DATA_UINT16
  | NEURAX_DATA_INT16
  | NEURAX_DATA_FLOAT32

type_synonym u32 = "32 word"
type_synonym size_t = "64 word"

definition NEURAX_ACTIVATION_RELU :: u32 where "NEURAX_ACTIVATION_RELU = 0"
definition NEURAX_ACTIVATION_TANH :: u32 where "NEURAX_ACTIVATION_TANH = 1"
definition NEURAX_ACTIVATION_SIGMOID :: u32 where "NEURAX_ACTIVATION_SIGMOID = 2"
definition NEURAX_ACTIVATION_LINEAR :: u32 where "NEURAX_ACTIVATION_LINEAR = 3"

definition NEURAX_POOL_MAX :: u32 where "NEURAX_POOL_MAX = 0"
definition NEURAX_POOL_AVERAGE :: u32 where "NEURAX_POOL_AVERAGE = 1"

text \<open>
  The configuration structures. Field names are those of the headers, except where two
  structures share a name: the element type of the device configuration is
  \<open>cfg_data_type\<close>, and the strides of the pooling configuration are \<open>pstride_x\<close> and
  \<open>pstride_y\<close>.
\<close>

record neurax_config =
  base_address :: u32
  memory_size :: u32
  use_hardware :: bool
  max_kernel_size :: u32
  num_multipliers :: u32
  cfg_data_type :: neurax_data_type

record neurax_conv_config =
  kernel_width :: u32
  kernel_height :: u32
  stride_x :: u32
  stride_y :: u32
  padding_x :: u32
  padding_y :: u32
  input_channels :: u32
  output_channels :: u32
  use_bias :: bool
  activation :: u32

record neurax_pool_config =
  pool_width :: u32
  pool_height :: u32
  pstride_x :: u32
  pstride_y :: u32
  pool_type :: u32

text \<open>
  The tensor descriptor. \<open>data\<close> is the \<open>void*\<close> to the element storage: \<open>None\<close> is the
  null pointer, otherwise the array it points to, typed by the element type it was
  allocated for. The dimension fields are \<open>uint32_t\<close>, \<open>data_size\<close> is a 64-bit \<open>size_t\<close>.
\<close>

datatype buffer =
    U8 "8 word list"
  | I8 "8 word list"
  | U16 "16 word list"
  | I16 "16 word list"
  | F32 "real list"

record neurax_tensor =
  data :: "buffer option"
  width :: u32
  height :: u32
  channels :: u32
  batch_size :: u32
  data_type :: neurax_data_type
  data_size :: size_t

section \<open>Floating-point values and C conversions\<close>

text \<open>
  A finite \<open>float\<close> or \<open>double\<close> value is the real number it denotes. \<open>fmax\<close>, \<open>fmin\<close>,
  comparisons and the conversions between \<open>float\<close> and the integer types of at most 16
  bits are exact on such values. Infinities and NaN are outside the model.

  Converting a floating value to an integer type discards the fractional part
  (truncation toward zero). The result is stored in the destination width; the C
  standard leaves the conversion undefined when the integral part does not fit, and the
  model wraps there.
\<close>

definition fmax :: "real \<Rightarrow> real \<Rightarrow> real" where
  "fmax a b = (if a < b then b else a)"

definition fmin :: "real \<Rightarrow> real \<Rightarrow> real" where
  "fmin a b = (if b < a then b else a)"

definition c_trunc :: "real \<Rightarrow> int" where
  "c_trunc x = (if 0 \<le> x then \<lfloor>x\<rfloor> else \<lceil>x\<rceil>)"

definition cast_uint8 :: "real \<Rightarrow> 8 word" where
  "cast_uint8 x = word_of_int (c_trunc x)"

definition cast_int8 :: "real \<Rightarrow> 8 word" where
  "cast_int8 x = word_of_int (c_trunc x)"

definition cast_uint16 :: "real \<Rightarrow> 16 word" where
  "cast_uint16 x = word_of_int (c_trunc x)"

definition cast_int16 :: "real \<Rightarrow> 16 word" where
  "cast_int16 x = word_of_int (c_trunc x)"

text \<open>The value of an integer element promoted to \<open>float\<close>.\<close>

definition float_of_uint8 :: "8 word \<Rightarrow> real" where
  "float_of_uint8 w = real (unat w)"

definition float_of_int8 :: "8 word \<Rightarrow> real" where
  "float_of_int8 w = real_of_int (sint w)"

definition float_of_uint16 :: "16 word \<Rightarrow> real" where
  "float_of_uint16 w = real (unat w)"

definition float_of_int16 :: "16 word \<Rightarrow> real" where
  "float_of_int16 w = real_of_int (sint w)"

definition FLT_MAX :: real where
  "FLT_MAX = (2 ^ 24 - 1) * 2 ^ 104"

text \<open>
  Arithmetic on \<open>float\<close> operands is carried out in \<open>float\<close>: the operation delivers the
  exact result rounded to the nearest binary32 value, ties to the even significand, each
  operation on its own (no wider evaluation format, no fused multiply-add).
  \<open>float_ulp x\<close> is the spacing of the binary32 values around \<open>x\<close> (24-bit significand,
  least normal exponent \<open>-126\<close>, subnormals below), \<open>round_even\<close> rounds to the nearest
  integer with ties to even, and \<open>f32\<close> is the rounding. Overflow to infinity is outside the
  model. \<open>fadd\<close>, \<open>fmul\<close> and \<open>fdiv\<close> are the \<open>float\<close> operations \<open>+\<close>, \<open>*\<close> and \<open>/\<close>;
  \<open>float_of_uint32\<close> is the conversion of a \<open>uint32_t\<close> operand to \<open>float\<close>; \<open>tanhf\<close> and
  \<open>expf\<close> are taken as correctly rounded.
\<close>

definition round_even :: "real \<Rightarrow> int" where
  "round_even y =
     (if y - real_of_int \<lfloor>y\<rfloor> < 1 / 2 then \<lfloor>y\<rfloor>
      else if 1 / 2 < y - real_of_int \<lfloor>y\<rfloor> then \<lfloor>y\<rfloor> + 1
      else if even \<lfloor>y\<rfloor> then \<lfloor>y\<rfloor> else \<lfloor>y\<rfloor> + 1)"

definition float_ulp :: "real \<Rightarrow> real" where
  "float_ulp x = 2 powr real_of_int (max \<lfloor>log 2 \<bar>x\<bar>\<rfloor> (- 126) - 23)"

definition f32 :: "real \<Rightarrow> real" where
  "f32 x = (if x = 0 then 0 else real_of_int (round_even (x / float_ulp x)) * float_ulp x)"

definition fadd :: "real \<Rightarrow> real \<Rightarrow> real" where
  "fadd a b = f32 (a + b)"

definition fmul :: "real \<Rightarrow> real \<Rightarrow> real" where
  "fmul a b = f32 (a * b)"

definition fdiv :: "real \<Rightarrow> real \<Rightarrow> real" where
  "fdiv a b = f32 (a / b)"

definition float_of_uint32 :: "u32 \<Rightarrow> real" where
  "float_of_uint32 w = f32 (real (unat w))"

definition tanhf :: "real \<Rightarrow> real" where
  "tanhf x = f32 (tanh x)"

definition expf :: "real \<Rightarrow> real" where
  "expf x = f32 (exp x)"

section \<open>Typed access to element storage\<close>

text \<open>
  A kernel yields \<open>None\<close> where the C program has no defined result: an access outside
  the array, an array read through a pointer of another element type, a division by zero.
  \<open>as_uint8\<close> is the cast \<open>(uint8_t*)tensor->data\<close>, and so on for the other types;
  \<open>ld\<close> and \<open>st\<close> are the indexed load and store.
\<close>

definition as_uint8 :: "buffer option \<Rightarrow> 8 word list option" where
  "as_uint8 p = (case p of Some (U8 d) \<Rightarrow> Some d | _ \<Rightarrow> None)"

definition as_int8 :: "buffer option \<Rightarrow> 8 word list option" where
  "as_int8 p = (case p of Some (I8 d) \<Rightarrow> Some d | _ \<Rightarrow> None)"

definition as_uint16 :: "buffer option \<Rightarrow> 16 word list option" where
  "as_uint16 p = (case p of Some (U16 d) \<Rightarrow> Some d | _ \<Rightarrow> None)"

definition as_int16 :: "buffer option \<Rightarrow> 16 word list option" where
  "as_int16 p = (case p of Some (I16 d) \<Rightarrow> Some d | _ \<Rightarrow> None)"

definition as_float :: "buffer option \<Rightarrow> real list option" where
  "as_float p = (case p of Some (F32 d) \<Rightarrow> Some d | _ \<Rightarrow> None)"

definition ld :: "'a list \<Rightarrow> nat \<Rightarrow> 'a option" where
  "ld d i = (if i < length d then Some (d ! i) else None)"

definition st :: "'a list \<Rightarrow> nat \<Rightarrow> 'a \<Rightarrow> 'a list option" where
  "st d i v = (if i < length d then Some (d[i := v]) else None)"

definition neurax_get_element_size :: "neurax_data_type \<Rightarrow> size_t" where
  "neurax_get_element_size t =
     (case t of
        NEURAX_DATA_UINT8 \<Rightarrow> 1
      | NEURAX_DATA_INT8 \<Rightarrow> 1
      | NEURAX_DATA_UINT16 \<Rightarrow> 2
      | NEURAX_DATA_INT16 \<Rightarrow> 2
      | NEURAX_DATA_FLOAT32 \<Rightarrow> 4)"

section \<open>Element helpers of the convolution file (neurax\_conv2d.c)\<close>

text \<open>
  The index expressions are evaluated in \<open>uint32_t\<close> and only then widened to \<open>size_t\<close>,
  so they wrap at 32 bits.
\<close>

definition neurax_get_tensor_value ::
  "neurax_tensor \<Rightarrow> u32 \<Rightarrow> u32 \<Rightarrow> u32 \<Rightarrow> u32 \<Rightarrow> real option" where
  "neurax_get_tensor_value tensor batch y x c =
     (let index = unat (((batch * height tensor + y) * width tensor + x) * channels tensor + c) in
      case data_type tensor of
        NEURAX_DATA_UINT8 \<Rightarrow> do { d \<leftarrow> as_uint8 (data tensor); w \<leftarrow> ld d index; Some (float_of_uint8 w) }
      | NEURAX_DATA_INT8 \<Rightarrow> do { d \<leftarrow> as_int8 (data tensor); w \<leftarrow> ld d index; Some (float_of_int8 w) }
      | NEURAX_DATA_UINT16 \<Rightarrow> do { d \<leftarrow> as_uint16 (data tensor); w \<leftarrow> ld d index; Some (float_of_uint16 w) }
      | NEURAX_DATA_INT16 \<Rightarrow> do { d \<leftarrow> as_int16 (data tensor); w \<leftarrow> ld d index; Some (float_of_int16 w) }
      | NEURAX_DATA_FLOAT32 \<Rightarrow> do { d \<leftarrow> as_float (data tensor); ld d index })"

definition neurax_get_weight_value ::
  "neurax_tensor \<Rightarrow> u32 \<Rightarrow> u32 \<Rightarrow> u32 \<Rightarrow> u32 \<Rightarrow> real option" where
  "neurax_get_weight_value weights out_ch in_ch ky kx =
     (let index = unat (((out_ch * channels weights + in_ch) * height weights + ky) * width weights + kx) in
      case data_type weights of
        NEURAX_DATA_UINT8 \<Rightarrow> do { d \<leftarrow> as_uint8 (data weights); w \<leftarrow> ld d index; Some (float_of_uint8 w) }
      | NEURAX_DATA_INT8 \<Rightarrow> do { d \<leftarrow> as_int8 (data weights); w \<leftarrow> ld d index; Some (float_of_int8 w) }
      | NEURAX_DATA_UINT16 \<Rightarrow> do { d \<leftarrow> as_uint16 (data weights); w \<leftarrow> ld d index; Some (float_of_uint16 w) }
      | NEURAX_DATA_INT16 \<Rightarrow> do { d \<leftarrow> as_int16 (data weights); w \<leftarrow> ld d index; Some (float_of_int16 w) }
      | NEURAX_DATA_FLOAT32 \<Rightarrow> do { d \<leftarrow> as_float (data weights); ld d index })"

definition neurax_get_bias_value :: "neurax_tensor \<Rightarrow> u32 \<Rightarrow> real option" where
  "neurax_get_bias_value bias channel =
     (case data_type bias of
        NEURAX_DATA_UINT8 \<Rightarrow> do { d \<leftarrow> as_uint8 (data bias); w \<leftarrow> ld d (unat channel); Some (float_of_uint8 w) }
      | NEURAX_DATA_INT8 \<Rightarrow> do { d \<leftarrow> as_int8 (data bias); w \<leftarrow> ld d (unat channel); Some (float_of_int8 w) }
      | NEURAX_DATA_UINT16 \<Rightarrow> do { d \<leftarrow> as_uint16 (data bias); w \<leftarrow> ld d (unat channel); Some (float_of_uint16 w) }
      | NEURAX_DATA_INT16 \<Rightarrow> do { d \<leftarrow> as_int16 (data bias); w \<leftarrow> ld d (unat channel); Some (float_of_int16 w) }
      | NEURAX_DATA_FLOAT32 \<Rightarrow> do { d \<leftarrow> as_float (data bias); ld d (unat channel) })"

definition neurax_set_tensor_value ::
  "neurax_tensor \<Rightarrow> u32 \<Rightarrow> u32 \<Rightarrow> u32 \<Rightarrow> u32 \<Rightarrow> real \<Rightarrow> neurax_tensor option" where
  "neurax_set_tensor_value tensor batch y x c val =
     (let index = unat (((batch * height tensor + y) * width tensor + x) * channels tensor + c) in
      case data_type tensor of
        NEURAX_DATA_UINT8 \<Rightarrow> do {
          d \<leftarrow> as_uint8 (data tensor);
          d' \<leftarrow> st d index (cast_uint8 (fmax 0 (fmin 255 val)));
          Some (tensor\<lparr>data := Some (U8 d')\<rparr>) }
      | NEURAX_DATA_INT8 \<Rightarrow> do {
          d \<leftarrow> as_int8 (data tensor);
          d' \<leftarrow> st d index (cast_int8 (fmax (- 128) (fmin 127 val)));
          Some (tensor\<lparr>data := Some (I8 d')\<rparr>) }
      | NEURAX_DATA_UINT16 \<Rightarrow> do {
          d \<leftarrow> as_uint16 (data tensor);
          d' \<leftarrow> st d index (cast_uint16 (fmax 0 (fmin 65535 val)));
          Some (tensor\<lparr>data := Some (U16 d')\<rparr>) }
      | NEURAX_DATA_INT16 \<Rightarrow> do {
          d \<leftarrow> as_int16 (data tensor);
          d' \<leftarrow> st d index (cast_int16 (fmax (- 32768) (fmin 32767 val)));
          Some (tensor\<lparr>data := Some (I16 d')\<rparr>) }
      | NEURAX_DATA_FLOAT32 \<Rightarrow> do {
          d \<leftarrow> as_float (data tensor);
          d' \<leftarrow> st d index val;
          Some (tensor\<lparr>data := Some (F32 d')\<rparr>) })"

definition neurax_apply_activation :: "real \<Rightarrow> u32 \<Rightarrow> real" where
  "neurax_apply_activation val act =
     (if act = NEURAX_ACTIVATION_RELU then fmax 0 val
      else if act = NEURAX_ACTIVATION_TANH then tanhf val
      else if act = NEURAX_ACTIVATION_SIGMOID then fdiv 1 (fadd 1 (expf (- val)))
      else val)"

section \<open>Element helpers of the layer file (neurax\_layers.c)\<close>

definition neurax_get_tensor_element :: "neurax_tensor \<Rightarrow> size_t \<Rightarrow> real option" where
  "neurax_get_tensor_element tensor index =
     (case data_type tensor of
        NEURAX_DATA_UINT8 \<Rightarrow> do { d \<leftarrow> as_uint8 (data tensor); w \<leftarrow> ld d (unat index); Some (float_of_uint8 w) }
      | NEURAX_DATA_INT8 \<Rightarrow> do { d \<leftarrow> as_int8 (data tensor); w \<leftarrow> ld d (unat index); Some (float_of_int8 w) }
      | NEURAX_DATA_UINT16 \<Rightarrow> do { d \<leftarrow> as_uint16 (data tensor); w \<leftarrow> ld d (unat index); Some (float_of_uint16 w) }
      | NEURAX_DATA_INT16 \<Rightarrow> do { d \<leftarrow> as_int16 (data tensor); w \<leftarrow> ld d (unat index); Some (float_of_int16 w) }
      | NEURAX_DATA_FLOAT32 \<Rightarrow> do { d \<leftarrow> as_float (data tensor); ld d (unat index) })"

definition neurax_set_tensor_element :: "neurax_tensor \<Rightarrow> size_t \<Rightarrow> real \<Rightarrow> neurax_tensor option" where
  "neurax_set_tensor_element tensor index val =
     (case data_type tensor of
        NEURAX_DATA_UINT8 \<Rightarrow> do {
          d \<leftarrow> as_uint8 (data tensor);
          d' \<leftarrow> st d (unat index) (cast_uint8 (fmax 0 (fmin 255 val)));
          Some (tensor\<lparr>data := Some (U8 d')\<rparr>) }
      | NEURAX_DATA_INT8 \<Rightarrow> do {
          d \<leftarrow> as_int8 (data tensor);
          d' \<leftarrow> st d (unat index) (cast_int8 (fmax (- 128) (fmin 127 val)));
          Some (tensor\<lparr>data := Some (I8 d')\<rparr>) }
      | NEURAX_DATA_UINT16 \<Rightarrow> do {
          d \<leftarrow> as_uint16 (data tensor);
          d' \<leftarrow> st d (unat index) (cast_uint16 (fmax 0 (fmin 65535 val)));
          Some (tensor\<lparr>data := Some (U16 d')\<rparr>) }
      | NEURAX_DATA_INT16 \<Rightarrow> do {
          d \<leftarrow> as_int16 (data tensor);
          d' \<leftarrow> st d (unat index) (cast_int16 (fmax (- 32768) (fmin 32767 val)));
          Some (tensor\<lparr>data := Some (I16 d')\<rparr>) }
      | NEURAX_DATA_FLOAT32 \<Rightarrow> do {
          d \<leftarrow> as_float (data tensor);
          d' \<leftarrow> st d (unat index) val;
          Some (tensor\<lparr>data := Some (F32 d')\<rparr>) })"

section \<open>Validation (neurax\_utils.c)\<close>

text \<open>A pointer argument that may be \<open>NULL\<close> is an \<open>option\<close>.\<close>

definition neurax_validate_conv_config :: "neurax_conv_config option \<Rightarrow> neurax_error" where
  "neurax_validate_conv_config cfg =
     (case cfg of
        None \<Rightarrow> NEURAX_ERROR_INVALID_PARAM
      | Some config \<Rightarrow>
          if kernel_width config = 0 \<or> kernel_height config = 0 then NEURAX_ERROR_INVALID_PARAM
          else if kernel_width config > 11 \<or> kernel_height config > 11 then NEURAX_ERROR_INVALID_PARAM
          else if stride_x config = 0 \<or> stride_y config = 0 then NEURAX_ERROR_INVALID_PARAM
          else if stride_x config > 8 \<or> stride_y config > 8 then NEURAX_ERROR_INVALID_PARAM
          else if input_channels config = 0 \<or> output_channels config = 0 then NEURAX_ERROR_INVALID_PARAM
          else if activation config > NEURAX_ACTIVATION_LINEAR then NEURAX_ERROR_INVALID_PARAM
          else NEURAX_SUCCESS)"

definition neurax_validate_pool_config :: "neurax_pool_config option \<Rightarrow> neurax_error" where
  "neurax_validate_pool_config cfg =
     (case cfg of
        None \<Rightarrow> NEURAX_ERROR_INVALID_PARAM
      | Some config \<Rightarrow>
          if pool_width config = 0 \<or> pool_height config = 0 then NEURAX_ERROR_INVALID_PARAM
          else if pool_width config > 8 \<or> pool_height config > 8 then NEURAX_ERROR_INVALID_PARAM
          else if pstride_x config = 0 \<or> pstride_y config = 0 then NEURAX_ERROR_INVALID_PARAM
          else if pool_type config > NEURAX_POOL_AVERAGE then NEURAX_ERROR_INVALID_PARAM
          else NEURAX_SUCCESS)"

definition neurax_validate_tensor :: "neurax_tensor option \<Rightarrow> neurax_error" where
  "neurax_validate_tensor p =
     (case p of
        None \<Rightarrow> NEURAX_ERROR_INVALID_PARAM
      | Some tensor \<Rightarrow>
          if data tensor = None then NEURAX_ERROR_INVALID_PARAM
          else if width tensor = 0 \<or> height tensor = 0 \<or> channels tensor = 0 \<or> batch_size tensor = 0
            then NEURAX_ERROR_INVALID_PARAM
          else
            let expected_size =
                  (ucast (width tensor * height tensor * channels tensor * batch_size tensor) :: size_t)
                    * neurax_get_element_size (data_type tensor)
            in if data_size tensor \<noteq> expected_size then NEURAX_ERROR_INVALID_PARAM
               else NEURAX_SUCCESS)"

definition neurax_tensor_total_elements :: "neurax_tensor option \<Rightarrow> size_t" where
  "neurax_tensor_total_elements p =
     (case p of
        None \<Rightarrow> 0
      | Some tensor \<Rightarrow> ucast (width tensor * height tensor * channels tensor * batch_size tensor))"

section \<open>CPU kernels\<close>

text \<open>
  A counting loop \<open>for (i = 0; i < n; i++)\<close> over an unsigned counter runs its body for
  \<open>i = 0, \<dots>, n - 1\<close> in order, threading the state, and stops at the first body
  without a defined result. \<open>for_u32\<close> hands the counter to the body as a \<open>uint32_t\<close>,
  \<open>for_size\<close> as a \<open>size_t\<close>.
\<close>

definition for_range :: "nat \<Rightarrow> (nat \<Rightarrow> 's \<Rightarrow> 's option) \<Rightarrow> 's \<Rightarrow> 's option" where
  "for_range n body s = foldl (\<lambda>acc i. Option.bind acc (body i)) (Some s) [0..<n]"

definition for_u32 :: "u32 \<Rightarrow> (u32 \<Rightarrow> 's \<Rightarrow> 's option) \<Rightarrow> 's \<Rightarrow> 's option" where
  "for_u32 n body s = for_range (unat n) (\<lambda>i. body (of_nat i)) s"

definition for_size :: "size_t \<Rightarrow> (size_t \<Rightarrow> 's \<Rightarrow> 's option) \<Rightarrow> 's \<Rightarrow> 's option" where
  "for_size n body s = for_range (unat n) (\<lambda>i. body (of_nat i)) s"

text \<open>
  \<open>memset(p, 0, n)\<close> on typed storage: the first \<open>n\<close> bytes are whole elements, which
  become zero (the all-zero byte pattern is the value 0 of each of the five types). There
  is no defined result when \<open>p\<close> is null, when \<open>n\<close> exceeds the storage, or when \<open>n\<close>
  ends inside an element.
\<close>

definition zero_fill :: "'a::zero list \<Rightarrow> nat \<Rightarrow> nat \<Rightarrow> 'a list option" where
  "zero_fill d nbytes esz =
     (if nbytes mod esz = 0 \<and> nbytes div esz \<le> length d
      then Some (replicate (nbytes div esz) 0 @ drop (nbytes div esz) d)
      else None)"

definition memset_zero :: "buffer option \<Rightarrow> size_t \<Rightarrow> buffer option" where
  "memset_zero p n =
     (case p of
        None \<Rightarrow> None
      | Some (U8 d) \<Rightarrow> map_option U8 (zero_fill d (unat n) 1)
      | Some (I8 d) \<Rightarrow> map_option I8 (zero_fill d (unat n) 1)
      | Some (U16 d) \<Rightarrow> map_option U16 (zero_fill d (unat n) 2)
      | Some (I16 d) \<Rightarrow> map_option I16 (zero_fill d (unat n) 2)
      | Some (F32 d) \<Rightarrow> map_option F32 (zero_fill d (unat n) 4))"

text \<open>
  The kernels write into the caller's output tensor; here they return it. The input,
  weight and bias tensors are distinct objects from the output. The result is the error
  code together with the output tensor as the call leaves it.
\<close>

definition conv_accumulate ::
  "neurax_tensor \<Rightarrow> neurax_tensor \<Rightarrow> neurax_conv_config \<Rightarrow> u32 \<Rightarrow> u32 \<Rightarrow> u32 \<Rightarrow> u32 \<Rightarrow> real option" where
  "conv_accumulate input weights config batch out_ch out_y out_x =
     for_u32 (input_channels config) (\<lambda>in_ch.
       for_u32 (kernel_height config) (\<lambda>ky.
         for_u32 (kernel_width config) (\<lambda>kx accumulator.
           let in_y = out_y * stride_y config + ky - padding_y config;
               in_x = out_x * stride_x config + kx - padding_x config
           in if 0 \<le> sint in_y \<and> sint in_y < sint (height input) \<and>
                 0 \<le> sint in_x \<and> sint in_x < sint (width input)
              then do {
                input_val \<leftarrow> neurax_get_tensor_value input batch in_y in_x in_ch;
                weight_val \<leftarrow> neurax_get_weight_value weights out_ch in_ch ky kx;
                Some (fadd accumulator (fmul input_val weight_val)) }
              else Some accumulator))) 0"

definition conv_cell ::
  "neurax_tensor \<Rightarrow> neurax_tensor \<Rightarrow> neurax_tensor option \<Rightarrow> neurax_conv_config \<Rightarrow>
   u32 \<Rightarrow> u32 \<Rightarrow> u32 \<Rightarrow> u32 \<Rightarrow> neurax_tensor \<Rightarrow> neurax_tensor option" where
  "conv_cell input weights bias config batch out_ch out_y out_x output =
     do {
       accumulator \<leftarrow> conv_accumulate input weights config batch out_ch out_y out_x;
       accumulator \<leftarrow>
         (case bias of
            Some b \<Rightarrow>
              if use_bias config
              then do { bias_val \<leftarrow> neurax_get_bias_value b out_ch; Some (fadd accumulator bias_val) }
              else Some accumulator
          | None \<Rightarrow> Some accumulator);
       neurax_set_tensor_value output batch out_y out_x out_ch
         (neurax_apply_activation accumulator (activation config))
     }"

definition neurax_cpu_conv2d ::
  "neurax_tensor \<Rightarrow> neurax_tensor \<Rightarrow> neurax_tensor option \<Rightarrow> neurax_conv_config \<Rightarrow>
   neurax_tensor \<Rightarrow> (neurax_error \<times> neurax_tensor) option" where
  "neurax_cpu_conv2d input weights bias config output =
     (if stride_y config = 0 \<or> stride_x config = 0 then None
      else
        let out_height = (height input + 2 * padding_y config - kernel_height config) div stride_y config + 1;
            out_width = (width input + 2 * padding_x config - kernel_width config) div stride_x config + 1
        in if height output \<noteq> out_height \<or> width output \<noteq> out_width
           then Some (NEURAX_ERROR_INVALID_PARAM, output)
           else do {
             cleared \<leftarrow> memset_zero (data output) (data_size output);
             out \<leftarrow>
               for_u32 (batch_size input) (\<lambda>batch.
                 for_u32 (output_channels config) (\<lambda>out_ch.
                   for_u32 out_height (\<lambda>out_y.
                     for_u32 out_width (\<lambda>out_x.
                       conv_cell input weights bias config batch out_ch out_y out_x))))
                 (output\<lparr>data := Some cleared\<rparr>);
             Some (NEURAX_SUCCESS, out)
           })"

text \<open>
  The pooling window scan keeps the running result together with \<open>valid_count\<close>, the number
  of taps that passed the bounds test.
\<close>

definition pool_window ::
  "neurax_tensor \<Rightarrow> neurax_pool_config \<Rightarrow> u32 \<Rightarrow> u32 \<Rightarrow> u32 \<Rightarrow> u32 \<Rightarrow> (real \<times> u32) option" where
  "pool_window input config batch ch out_y out_x =
     for_u32 (pool_height config) (\<lambda>py.
       for_u32 (pool_width config) (\<lambda>px (pool_result, valid_count).
         let in_y = out_y * pstride_y config + py;
             in_x = out_x * pstride_x config + px
         in if in_y < height input \<and> in_x < width input
            then do {
              val \<leftarrow> neurax_get_tensor_value input batch in_y in_x ch;
              Some (if pool_type config = NEURAX_POOL_MAX
                    then (if val > pool_result \<or> valid_count = 0 then val else pool_result)
                    else fadd pool_result val,
                    valid_count + 1) }
            else Some (pool_result, valid_count)))
       (if pool_type config = NEURAX_POOL_MAX then - FLT_MAX else 0, 0)"

definition pool_cell ::
  "neurax_tensor \<Rightarrow> neurax_pool_config \<Rightarrow> u32 \<Rightarrow> u32 \<Rightarrow> u32 \<Rightarrow> u32 \<Rightarrow>
   neurax_tensor \<Rightarrow> neurax_tensor option" where
  "pool_cell input config batch ch out_y out_x output =
     do {
       (pool_result, valid_count) \<leftarrow> pool_window input config batch ch out_y out_x;
       neurax_set_tensor_value output batch out_y out_x ch
         (if pool_type config = NEURAX_POOL_AVERAGE \<and> valid_count > 0
          then fdiv pool_result (float_of_uint32 valid_count)
          else pool_result)
     }"

definition neurax_cpu_pooling ::
  "neurax_tensor \<Rightarrow> neurax_pool_config \<Rightarrow> neurax_tensor \<Rightarrow> (neurax_error \<times> neurax_tensor) option" where
  "neurax_cpu_pooling input config output =
     (if pstride_y config = 0 \<or> pstride_x config = 0 then None
      else
        let out_height = (height input - pool_height config) div pstride_y config + 1;
            out_width = (width input - pool_width config) div pstride_x config + 1
        in if height output \<noteq> out_height \<or> width output \<noteq> out_width
           then Some (NEURAX_ERROR_INVALID_PARAM, output)
           else do {
             cleared \<leftarrow> memset_zero (data output) (data_size output);
             out \<leftarrow>
               for_u32 (batch_size input) (\<lambda>batch.
                 for_u32 (channels input) (\<lambda>ch.
                   for_u32 out_height (\<lambda>out_y.
                     for_u32 out_width (\<lambda>out_x.
                       pool_cell input config batch ch out_y out_x))))
                 (output\<lparr>data := Some cleared\<rparr>);
             Some (NEURAX_SUCCESS, out)
           })"

definition neurax_cpu_activation ::
  "neurax_tensor \<Rightarrow> u32 \<Rightarrow> neurax_tensor \<Rightarrow> (neurax_error \<times> neurax_tensor) option" where
  "neurax_cpu_activation input act output =
     do {
       out \<leftarrow>
         for_size (neurax_tensor_total_elements (Some input)) (\<lambda>i out.
           do {
             input_val \<leftarrow> neurax_get_tensor_element input i;
             neurax_set_tensor_element out i (neurax_apply_activation input_val act)
           }) output;
       Some (NEURAX_SUCCESS, out)
     }"

section \<open>Data type conversion (neurax\_utils.c)\<close>

text \<open>
  \<open>memcpy\<close> of \<open>n\<close> whole elements between arrays of one element type; no defined result
  when either array is shorter.
\<close>

definition copy_elems :: "'a list \<Rightarrow> 'a list \<Rightarrow> nat \<Rightarrow> 'a list option" where
  "copy_elems src dst n =
     (if n \<le> length src \<and> n \<le> length dst then Some (take n src @ drop n dst) else None)"

definition memcpy_same :: "buffer \<Rightarrow> buffer \<Rightarrow> neurax_data_type \<Rightarrow> nat \<Rightarrow> buffer option" where
  "memcpy_same src dst ty n =
     (case ty of
        NEURAX_DATA_UINT8 \<Rightarrow> do {
          a \<leftarrow> as_uint8 (Some src); b \<leftarrow> as_uint8 (Some dst); c \<leftarrow> copy_elems a b n; Some (U8 c) }
      | NEURAX_DATA_INT8 \<Rightarrow> do {
          a \<leftarrow> as_int8 (Some src); b \<leftarrow> as_int8 (Some dst); c \<leftarrow> copy_elems a b n; Some (I8 c) }
      | NEURAX_DATA_UINT16 \<Rightarrow> do {
          a \<leftarrow> as_uint16 (Some src); b \<leftarrow> as_uint16 (Some dst); c \<leftarrow> copy_elems a b n; Some (U16 c) }
      | NEURAX_DATA_INT16 \<Rightarrow> do {
          a \<leftarrow> as_int16 (Some src); b \<leftarrow> as_int16 (Some dst); c \<leftarrow> copy_elems a b n; Some (I16 c) }
      | NEURAX_DATA_FLOAT32 \<Rightarrow> do {
          a \<leftarrow> as_float (Some src); b \<leftarrow> as_float (Some dst); c \<leftarrow> copy_elems a b n; Some (F32 c) })"

definition convert_read :: "buffer \<Rightarrow> neurax_data_type \<Rightarrow> nat \<Rightarrow> real option" where
  "convert_read src src_type i =
     (case src_type of
        NEURAX_DATA_UINT8 \<Rightarrow> do { d \<leftarrow> as_uint8 (Some src); w \<leftarrow> ld d i; Some (float_of_uint8 w) }
      | NEURAX_DATA_INT8 \<Rightarrow> do { d \<leftarrow> as_int8 (Some src); w \<leftarrow> ld d i; Some (float_of_int8 w) }
      | NEURAX_DATA_UINT16 \<Rightarrow> do { d \<leftarrow> as_uint16 (Some src); w \<leftarrow> ld d i; Some (float_of_uint16 w) }
      | NEURAX_DATA_INT16 \<Rightarrow> do { d \<leftarrow> as_int16 (Some src); w \<leftarrow> ld d i; Some (float_of_int16 w) }
      | NEURAX_DATA_FLOAT32 \<Rightarrow> do { d \<leftarrow> as_float (Some src); ld d i })"

definition convert_write :: "buffer \<Rightarrow> neurax_data_type \<Rightarrow> nat \<Rightarrow> real \<Rightarrow> buffer option" where
  "convert_write dst dst_type i temp_value =
     (case dst_type of
        NEURAX_DATA_UINT8 \<Rightarrow> do {
          d \<leftarrow> as_uint8 (Some dst);
          d' \<leftarrow> st d i (cast_uint8 (fmax 0 (fmin 255 temp_value)));
          Some (U8 d') }
      | NEURAX_DATA_INT8 \<Rightarrow> do {
          d \<leftarrow> as_int8 (Some dst);
          d' \<leftarrow> st d i (cast_int8 (fmax (- 128) (fmin 127 temp_value)));
          Some (I8 d') }
      | NEURAX_DATA_UINT16 \<Rightarrow> do {
          d \<leftarrow> as_uint16 (Some dst);
          d' \<leftarrow> st d i (cast_uint16 (fmax 0 (fmin 65535 temp_value)));
          Some (U16 d') }
      | NEURAX_DATA_INT16 \<Rightarrow> do {
          d \<leftarrow> as_int16 (Some dst);
          d' \<leftarrow> st d i (cast_int16 (fmax (- 32768) (fmin 32767 temp_value)));
          Some (I16 d') }
      | NEURAX_DATA_FLOAT32 \<Rightarrow> do {
          d \<leftarrow> as_float (Some dst);
          d' \<leftarrow> st d i temp_value;
          Some (F32 d') })"

definition neurax_convert_data_type ::
  "buffer option \<Rightarrow> neurax_data_type \<Rightarrow> buffer option \<Rightarrow> neurax_data_type \<Rightarrow> size_t \<Rightarrow>
   (neurax_error \<times> buffer option) option" where
  "neurax_convert_data_type src src_type dst dst_type num_elements =
     (case (src, dst) of
        (Some s, Some d) \<Rightarrow>
          if num_elements = 0 then Some (NEURAX_ERROR_INVALID_PARAM, dst)
          else if src_type = dst_type
          then do {
            d' \<leftarrow> memcpy_same s d src_type (unat num_elements);
            Some (NEURAX_SUCCESS, Some d') }
          else do {
            d' \<leftarrow> for_size num_elements (\<lambda>i d. do {
                    temp_value \<leftarrow> convert_read s src_type (unat i);
                    convert_write d dst_type (unat i) temp_value }) d;
            Some (NEURAX_SUCCESS, Some d') }
      | _ \<Rightarrow> Some (NEURAX_ERROR_INVALID_PARAM, dst))"

section \<open>Device and register window (neurax\_core.c)\<close>

text \<open>
  A pointer of the device record is null, the \<open>MAP_FAILED\<close> sentinel, or the mapped
  register window. The \<open>config\<close> member of the device structure is \<open>dev_config\<close>.
\<close>

datatype pointer = NULL | MAP_FAILED | MAPPED

record neurax_device =
  dev_config :: neurax_config
  initialized :: bool
  device_fd :: int
  mapped_memory :: pointer
  mapped_size :: size_t
  register_base :: pointer
  hardware_available :: bool

text \<open>
  What the operating system answers during initialisation: the results of the two
  \<open>open\<close> calls (a descriptor, or a negative value), the result of \<open>mmap\<close>, and whether
  \<open>calloc\<close> finds memory for the device record.
\<close>

record os_env =
  open_neurax0 :: int
  open_uio0 :: int
  mmap_result :: pointer
  calloc_ok :: bool

text \<open>
  The hardware behind the register window: \<open>reg_writes\<close> is the sequence of stores
  (word index, value) the driver has made, \<open>reg_value n i\<close> is what the hardware presents
  at the \<open>n\<close>-th load when it reads word \<open>i\<close>, \<open>reg_reads\<close> counts the loads made so far,
  and \<open>slept_us\<close> adds up the arguments of \<open>usleep\<close>.
\<close>

record hw_world =
  reg_writes :: "(u32 \<times> u32) list"
  reg_reads :: nat
  reg_value :: "nat \<Rightarrow> u32 \<Rightarrow> u32"
  slept_us :: nat

definition NEURAX_REG_CONTROL :: u32 where "NEURAX_REG_CONTROL = 0x00"
definition NEURAX_REG_STATUS :: u32 where "NEURAX_REG_STATUS = 0x04"
definition NEURAX_REG_CONV_CONFIG :: u32 where "NEURAX_REG_CONV_CONFIG = 0x08"
definition NEURAX_REG_POOL_CONFIG :: u32 where "NEURAX_REG_POOL_CONFIG = 0x0C"
definition NEURAX_REG_ACT_CONFIG :: u32 where "NEURAX_REG_ACT_CONFIG = 0x10"
definition NEURAX_REG_DIM_CONFIG :: u32 where "NEURAX_REG_DIM_CONFIG = 0x14"

definition CTRL_START :: u32 where "CTRL_START = push_bit 0 1"
definition CTRL_RESET :: u32 where "CTRL_RESET = push_bit 1 1"
definition CTRL_CONV_EN :: u32 where "CTRL_CONV_EN = push_bit 2 1"
definition CTRL_POOL_EN :: u32 where "CTRL_POOL_EN = push_bit 3 1"
definition CTRL_ACT_EN :: u32 where "CTRL_ACT_EN = push_bit 4 1"
definition CTRL_DATA_WIDTH :: u32 where "CTRL_DATA_WIDTH = push_bit 5 1"

definition STAT_BUSY :: u32 where "STAT_BUSY = push_bit 0 1"
definition STAT_DONE :: u32 where "STAT_DONE = push_bit 1 1"
definition STAT_ERROR :: u32 where "STAT_ERROR = push_bit 2 1"

definition NEURAX_DEFAULT_TIMEOUT_MS :: u32 where "NEURAX_DEFAULT_TIMEOUT_MS = 5000"

definition usleep :: "nat \<Rightarrow> hw_world \<Rightarrow> hw_world" where
  "usleep us world = world\<lparr>slept_us := slept_us world + us\<rparr>"

definition neurax_write_reg :: "neurax_device \<Rightarrow> u32 \<Rightarrow> u32 \<Rightarrow> hw_world \<Rightarrow> hw_world" where
  "neurax_write_reg device offset val world =
     (if hardware_available device \<and> register_base device \<noteq> NULL
      then world\<lparr>reg_writes := reg_writes world @ [(offset div 4, val)]\<rparr>
      else world)"

definition neurax_read_reg :: "neurax_device \<Rightarrow> u32 \<Rightarrow> hw_world \<Rightarrow> u32 \<times> hw_world" where
  "neurax_read_reg device offset world =
     (if hardware_available device \<and> register_base device \<noteq> NULL
      then (reg_value world (reg_reads world) (offset div 4),
            world\<lparr>reg_reads := reg_reads world + 1\<rparr>)
      else (0, world))"

definition neurax_device_open :: "neurax_device \<Rightarrow> os_env \<Rightarrow> neurax_error \<times> neurax_device" where
  "neurax_device_open device env =
     (let device = device\<lparr>device_fd := open_neurax0 env\<rparr>;
          device = (if device_fd device < 0 then device\<lparr>device_fd := open_uio0 env\<rparr> else device)
      in if device_fd device < 0
         then (NEURAX_SUCCESS, device\<lparr>hardware_available := False\<rparr>)
         else
           let device = device\<lparr>mapped_size := ucast (memory_size (dev_config device))\<rparr>;
               device = (if mapped_size device = 0 then device\<lparr>mapped_size := 0x10000\<rparr> else device);
               device = device\<lparr>mapped_memory := mmap_result env\<rparr>
           in if mapped_memory device = MAP_FAILED
              then (NEURAX_SUCCESS, device\<lparr>device_fd := - 1, hardware_available := False\<rparr>)
              else (NEURAX_SUCCESS,
                    device\<lparr>register_base := mapped_memory device, hardware_available := True\<rparr>))"

text \<open>
  \<open>neurax_init\<close>: \<open>cfg\<close> is the configuration pointer, \<open>device_out\<close> tells whether the
  out-parameter for the handle is non-null. The device record comes zeroed from \<open>calloc\<close>.
  The result is the error code, the handle stored through the out-parameter (if any) and
  the hardware afterwards.
\<close>

definition neurax_init ::
  "neurax_config option \<Rightarrow> bool \<Rightarrow> os_env \<Rightarrow> hw_world \<Rightarrow>
   neurax_error \<times> neurax_device option \<times> hw_world" where
  "neurax_init cfg device_out env world =
     (case cfg of
        None \<Rightarrow> (NEURAX_ERROR_INVALID_PARAM, None, world)
      | Some c \<Rightarrow>
          if \<not> device_out then (NEURAX_ERROR_INVALID_PARAM, None, world)
          else if \<not> calloc_ok env then (NEURAX_ERROR_MEMORY_ALLOCATION, None, world)
          else
            let dev = \<lparr>dev_config = c, initialized = False, device_fd = - 1,
                       mapped_memory = NULL, mapped_size = 0, register_base = NULL,
                       hardware_available = False\<rparr>;
                (error, dev) = neurax_device_open dev env
            in if error \<noteq> NEURAX_SUCCESS then (error, None, world)
               else
                 let world = neurax_write_reg dev NEURAX_REG_CONTROL CTRL_RESET world;
                     world = usleep 1000 world;
                     world = neurax_write_reg dev NEURAX_REG_CONTROL 0 world
                 in (NEURAX_SUCCESS, Some (dev\<lparr>initialized := True\<rparr>), world))"

text \<open>
  The polling loop of \<open>neurax_wait_for_completion\<close>. \<open>limit\<close> is \<open>timeout_ms * 1000\<close> and
  \<open>elapsed\<close> the loop variable, both \<open>uint32_t\<close>. Nothing in the loop bounds the number of
  rounds for every \<open>limit\<close> (the addition to \<open>elapsed\<close> can wrap), so the loop is a partial
  function: \<open>None\<close> stands for a loop that does not return.
\<close>

partial_function (option) wait_loop ::
  "neurax_device \<Rightarrow> u32 \<Rightarrow> u32 \<Rightarrow> hw_world \<Rightarrow> (neurax_error \<times> hw_world) option" where
  "wait_loop device limit elapsed world =
     (if elapsed < limit
      then
        if fst (neurax_read_reg device NEURAX_REG_STATUS world) AND STAT_ERROR \<noteq> 0
        then Some (NEURAX_ERROR_HARDWARE_FAILURE, snd (neurax_read_reg device NEURAX_REG_STATUS world))
        else if fst (neurax_read_reg device NEURAX_REG_STATUS world) AND STAT_DONE \<noteq> 0
        then Some (NEURAX_SUCCESS, snd (neurax_read_reg device NEURAX_REG_STATUS world))
        else wait_loop device limit (elapsed + 100)
               (usleep 100 (snd (neurax_read_reg device NEURAX_REG_STATUS world)))
      else Some (NEURAX_ERROR_TIMEOUT, world))"

definition neurax_wait_for_completion ::
  "neurax_device \<Rightarrow> u32 \<Rightarrow> hw_world \<Rightarrow> (neurax_error \<times> hw_world) option" where
  "neurax_wait_for_completion device timeout_ms world =
     (if \<not> hardware_available device then Some (NEURAX_SUCCESS, world)
      else wait_loop device (timeout_ms * 1000) 0 world)"

section \<open>Hardware legs and the three operations\<close>

text \<open>
  The bit-field unions of the private header, with the bit positions their comments give:
  a value assigned to a field is cut to the field's width and placed at its position.
\<close>

definition conv_config_reg :: "neurax_conv_config \<Rightarrow> u32" where
  "conv_config_reg config =
     ((kernel_width config - 1) AND mask 4)
     OR push_bit 4 ((stride_x config - 1) AND mask 3)
     OR push_bit 7 (padding_x config AND mask 2)
     OR push_bit 9 (if use_bias config then 1 else 0)
     OR push_bit 10 ((input_channels config - 1) AND mask 3)"

definition dim_config_reg :: "neurax_tensor \<Rightarrow> u32" where
  "dim_config_reg input = (width input AND mask 16) OR push_bit 16 (height input AND mask 16)"

definition conv_control_reg :: "neurax_tensor \<Rightarrow> neurax_conv_config \<Rightarrow> u32" where
  "conv_control_reg input config =
     (if data_type input = NEURAX_DATA_UINT16 \<or> data_type input = NEURAX_DATA_INT16
      then CTRL_DATA_WIDTH else 0)
     OR CTRL_CONV_EN
     OR (if activation config \<noteq> NEURAX_ACTIVATION_LINEAR then CTRL_ACT_EN else 0)"

text \<open>
  Each hardware leg returns the error code, the output tensor and the hardware as the call
  leaves them.
\<close>

definition neurax_hw_conv2d ::
  "neurax_device \<Rightarrow> neurax_tensor \<Rightarrow> neurax_tensor \<Rightarrow> neurax_tensor option \<Rightarrow>
   neurax_conv_config \<Rightarrow> neurax_tensor \<Rightarrow> hw_world \<Rightarrow>
   (neurax_error \<times> neurax_tensor \<times> hw_world) option" where
  "neurax_hw_conv2d device input weights bias config output world =
     (let world = neurax_write_reg device NEURAX_REG_CONV_CONFIG (conv_config_reg config) world;
          world = neurax_write_reg device NEURAX_REG_DIM_CONFIG (dim_config_reg input) world;
          world = neurax_write_reg device NEURAX_REG_ACT_CONFIG (activation config AND mask 2) world;
          world = neurax_write_reg device NEURAX_REG_CONTROL (conv_control_reg input config) world
      in do {
        (error, out) \<leftarrow> neurax_cpu_conv2d input weights bias config output;
        Some (error, out, world) })"

definition neurax_hw_activation ::
  "neurax_device \<Rightarrow> neurax_tensor \<Rightarrow> u32 \<Rightarrow> neurax_tensor \<Rightarrow> hw_world \<Rightarrow>
   (neurax_error \<times> neurax_tensor \<times> hw_world) option" where
  "neurax_hw_activation device input act output world =
     (let act_config = act AND 0x3;
          world = neurax_write_reg device NEURAX_REG_ACT_CONFIG act_config world;
          control = CTRL_ACT_EN;
          control = (if data_type input = NEURAX_DATA_UINT16 \<or> data_type input = NEURAX_DATA_INT16
                     then control OR CTRL_DATA_WIDTH else control);
          world = neurax_write_reg device NEURAX_REG_CONTROL (control OR CTRL_START) world
      in do {
        (error, world) \<leftarrow> neurax_wait_for_completion device NEURAX_DEFAULT_TIMEOUT_MS world;
        if error \<noteq> NEURAX_SUCCESS then Some (error, output, world)
        else do {
          (error, out) \<leftarrow> neurax_cpu_activation input act output;
          Some (error, out, world) } })"

definition neurax_hw_pooling ::
  "neurax_device \<Rightarrow> neurax_tensor \<Rightarrow> neurax_pool_config \<Rightarrow> neurax_tensor \<Rightarrow> hw_world \<Rightarrow>
   (neurax_error \<times> neurax_tensor \<times> hw_world) option" where
  "neurax_hw_pooling device input config output world =
     (let pool_config = (pool_type config AND 0x1)
                        OR push_bit 1 ((pool_width config - 2) AND 0x7)
                        OR push_bit 4 ((pstride_x config - 1) AND 0x7);
          world = neurax_write_reg device NEURAX_REG_POOL_CONFIG pool_config world;
          dim_config = (width input AND 0xFFFF) OR push_bit 16 (height input AND 0xFFFF);
          world = neurax_write_reg device NEURAX_REG_DIM_CONFIG dim_config world;
          control = CTRL_POOL_EN;
          control = (if data_type input = NEURAX_DATA_UINT16 \<or> data_type input = NEURAX_DATA_INT16
                     then control OR CTRL_DATA_WIDTH else control);
          world = neurax_write_reg device NEURAX_REG_CONTROL (control OR CTRL_START) world
      in do {
        (error, world) \<leftarrow> neurax_wait_for_completion device NEURAX_DEFAULT_TIMEOUT_MS world;
        if error \<noteq> NEURAX_SUCCESS then Some (error, output, world)
        else do {
          (error, out) \<leftarrow> neurax_cpu_pooling input config output;
          Some (error, out, world) } })"

text \<open>
  The public operations. Every pointer argument may be null. The result is the error
  code, the caller's output tensor and the hardware after the call.
\<close>

definition neurax_conv2d ::
  "neurax_device option \<Rightarrow> neurax_tensor option \<Rightarrow> neurax_tensor option \<Rightarrow>
   neurax_tensor option \<Rightarrow> neurax_conv_config option \<Rightarrow> neurax_tensor option \<Rightarrow> hw_world \<Rightarrow>
   (neurax_error \<times> neurax_tensor option \<times> hw_world) option" where
  "neurax_conv2d device input weights bias config output world =
     (case (device, input, weights, config, output) of
        (Some dev, Some inp, Some wts, Some cfg, Some outp) \<Rightarrow>
          if \<not> initialized dev then Some (NEURAX_ERROR_NOT_INITIALIZED, output, world)
          else if neurax_validate_tensor input \<noteq> NEURAX_SUCCESS
            then Some (neurax_validate_tensor input, output, world)
          else if neurax_validate_tensor weights \<noteq> NEURAX_SUCCESS
            then Some (neurax_validate_tensor weights, output, world)
          else if neurax_validate_tensor output \<noteq> NEURAX_SUCCESS
            then Some (neurax_validate_tensor output, output, world)
          else if neurax_validate_conv_config config \<noteq> NEURAX_SUCCESS
            then Some (neurax_validate_conv_config config, output, world)
          else if bias \<noteq> None \<and> use_bias cfg \<and> neurax_validate_tensor bias \<noteq> NEURAX_SUCCESS
            then Some (neurax_validate_tensor bias, output, world)
          else if hardware_available dev \<and> use_hardware (dev_config dev)
            then do {
              (error, out, world) \<leftarrow> neurax_hw_conv2d dev inp wts bias cfg outp world;
              Some (error, Some out, world) }
          else do {
              (error, out) \<leftarrow> neurax_cpu_conv2d inp wts bias cfg outp;
              Some (error, Some out, world) }
      | _ \<Rightarrow> Some (NEURAX_ERROR_INVALID_PARAM, output, world))"

definition neurax_activation ::
  "neurax_device option \<Rightarrow> neurax_tensor option \<Rightarrow> u32 \<Rightarrow> neurax_tensor option \<Rightarrow> hw_world \<Rightarrow>
   (neurax_error \<times> neurax_tensor option \<times> hw_world) option" where
  "neurax_activation device input act output world =
     (case (device, input, output) of
        (Some dev, Some inp, Some outp) \<Rightarrow>
          if \<not> initialized dev then Some (NEURAX_ERROR_NOT_INITIALIZED, output, world)
          else if neurax_validate_tensor input \<noteq> NEURAX_SUCCESS
            then Some (neurax_validate_tensor input, output, world)
          else if neurax_validate_tensor output \<noteq> NEURAX_SUCCESS
            then Some (neurax_validate_tensor output, output, world)
          else if width inp \<noteq> width outp \<or> height inp \<noteq> height outp \<or>
                  channels inp \<noteq> channels outp \<or> batch_size inp \<noteq> batch_size outp
            then Some (NEURAX_ERROR_INVALID_PARAM, output, world)
          else if hardware_available dev \<and> use_hardware (dev_config dev)
            then do {
              (error, out, world) \<leftarrow> neurax_hw_activation dev inp act outp world;
              Some (error, Some out, world) }
          else do {
              (error, out) \<leftarrow> neurax_cpu_activation inp act outp;
              Some (error, Some out, world) }
      | _ \<Rightarrow> Some (NEURAX_ERROR_INVALID_PARAM, output, world))"

definition neurax_pooling ::
  "neurax_device option \<Rightarrow> neurax_tensor option \<Rightarrow> neurax_pool_config option \<Rightarrow>
   neurax_tensor option \<Rightarrow> hw_world \<Rightarrow>
   (neurax_error \<times> neurax_tensor option \<times> hw_world) option" where
  "neurax_pooling device input config output world =
     (case (device, input, config, output) of
        (Some dev, Some inp, Some cfg, Some outp) \<Rightarrow>
          if \<not> initialized dev then Some (NEURAX_ERROR_NOT_INITIALIZED, output, world)
          else if neurax_validate_tensor input \<noteq> NEURAX_SUCCESS
            then Some (neurax_validate_tensor input, output, world)
          else if neurax_validate_tensor output \<noteq> NEURAX_SUCCESS
            then Some (neurax_validate_tensor output, output, world)
          else if neurax_validate_pool_config config \<noteq> NEURAX_SUCCESS
            then Some (neurax_validate_pool_config config, output, world)
          else if hardware_available dev \<and> use_hardware (dev_config dev)
            then do {
              (error, out, world) \<leftarrow> neurax_hw_pooling dev inp cfg outp world;
              Some (error, Some out, world) }
          else do {
              (error, out) \<leftarrow> neurax_cpu_pooling inp cfg outp;
              Some (error, Some out, world) }
      | _ \<Rightarrow> Some (NEURAX_ERROR_INVALID_PARAM, output, world))"

section \<open>Notions used to state the properties\<close>

subsection \<open>Typed storage and the write contract\<close>

text \<open>
  The element type and the element count of typed storage.
\<close>

definition buffer_type :: "buffer \<Rightarrow> neurax_data_type" where
  "buffer_type b = (case b of U8 _ \<Rightarrow> NEURAX_DATA_UINT8 | I8 _ \<Rightarrow> NEURAX_DATA_INT8
     | U16 _ \<Rightarrow> NEURAX_DATA_UINT16 | I16 _ \<Rightarrow> NEURAX_DATA_INT16 | F32 _ \<Rightarrow> NEURAX_DATA_FLOAT32)"

definition buffer_len :: "buffer \<Rightarrow> nat" where
  "buffer_len b = (case b of U8 d \<Rightarrow> length d | I8 d \<Rightarrow> length d
     | U16 d \<Rightarrow> length d | I16 d \<Rightarrow> length d | F32 d \<Rightarrow> length d)"

text \<open>
  The write contract of the kernels in closed form: clamp to the range of the destination
  type, then drop the fractional part; \<open>float32\<close> keeps the value.
\<close>

definition clamp_then_truncate :: "neurax_data_type \<Rightarrow> real \<Rightarrow> real" where
  "clamp_then_truncate ty v =
     (case ty of
        NEURAX_DATA_UINT8 \<Rightarrow> real_of_int (c_trunc (max 0 (min 255 v)))
      | NEURAX_DATA_INT8 \<Rightarrow> real_of_int (c_trunc (max (- 128) (min 127 v)))
      | NEURAX_DATA_UINT16 \<Rightarrow> real_of_int (c_trunc (max 0 (min 65535 v)))
      | NEURAX_DATA_INT16 \<Rightarrow> real_of_int (c_trunc (max (- 32768) (min 32767 v)))
      | NEURAX_DATA_FLOAT32 \<Rightarrow> v)"

text \<open>
  A tensor whose storage really holds the declared elements: storage of the declared
  element type, with \<open>width * height * channels * batch_size\<close> elements, a count that
  fits 32 bits, and \<open>data_size\<close> the byte size of that storage. Such a tensor passes
  \<open>neurax_validate_tensor\<close> (lemma \<open>well_formed_valid\<close> below).
\<close>

definition well_formed :: "neurax_tensor \<Rightarrow> bool" where
  "well_formed t =
     (case data t of
        None \<Rightarrow> False
      | Some b \<Rightarrow>
          buffer_type b = data_type t \<and>
          buffer_len b = unat (width t) * unat (height t) * unat (channels t) * unat (batch_size t) \<and>
          0 < buffer_len b \<and> buffer_len b < 2 ^ 32 \<and>
          unat (data_size t) = buffer_len b * unat (neurax_get_element_size (data_type t)))"

text \<open>Two tensor descriptors have the same shape, element type and byte size.\<close>

definition same_shape :: "neurax_tensor \<Rightarrow> neurax_tensor \<Rightarrow> bool" where
  "same_shape a b =
     (width a = width b \<and> height a = height b \<and> channels a = channels b \<and>
      batch_size a = batch_size b \<and> data_type a = data_type b \<and> data_size a = data_size b)"

subsection \<open>Polling in closed form\<close>

text \<open>
  \<open>poll_status status m j\<close> inspects the status values \<open>status j\<close>, \<open>status (j + 1)\<close>, \<dots>
  for at most \<open>m\<close> rounds and returns the outcome together with the index after the last
  value inspected. The error bit is looked at before the done bit. \<open>after_poll\<close> is the
  hardware after such a poll: the loads made, and 100 microseconds slept after every load
  that decided nothing.
\<close>

fun poll_status :: "(nat \<Rightarrow> u32) \<Rightarrow> nat \<Rightarrow> nat \<Rightarrow> neurax_error \<times> nat" where
  "poll_status status 0 j = (NEURAX_ERROR_TIMEOUT, j)"
| "poll_status status (Suc m) j =
     (if status j AND STAT_ERROR \<noteq> 0 then (NEURAX_ERROR_HARDWARE_FAILURE, Suc j)
      else if status j AND STAT_DONE \<noteq> 0 then (NEURAX_SUCCESS, Suc j)
      else poll_status status m (Suc j))"

definition after_poll :: "hw_world \<Rightarrow> neurax_error \<times> nat \<Rightarrow> neurax_error \<times> hw_world" where
  "after_poll world r =
     (fst r,
      world\<lparr>reg_reads := snd r,
             slept_us := slept_us world
               + 100 * (snd r - reg_reads world - (if fst r = NEURAX_ERROR_TIMEOUT then 0 else 1))\<rparr>)"

subsection \<open>Concrete devices, tensors and configurations for the examples\<close>

text \<open>
  An emulated and a hardware-bound device as \<open>neurax_init\<close> leaves them, hardware that
  shows one fixed status value at every load, and an operating system without the device.
\<close>

definition cfg0 :: neurax_config where
  "cfg0 = \<lparr>base_address = 0, memory_size = 0, use_hardware = True, max_kernel_size = 11,
           num_multipliers = 1, cfg_data_type = NEURAX_DATA_FLOAT32\<rparr>"

definition dev_emulated :: neurax_device where
  "dev_emulated = \<lparr>dev_config = cfg0, initialized = True, device_fd = - 1, mapped_memory = NULL,
                   mapped_size = 0, register_base = NULL, hardware_available = False\<rparr>"

definition dev_hw :: neurax_device where
  "dev_hw = \<lparr>dev_config = cfg0, initialized = True, device_fd = 3, mapped_memory = MAPPED,
             mapped_size = 0x10000, register_base = MAPPED, hardware_available = True\<rparr>"

definition world_showing :: "u32 \<Rightarrow> hw_world" where
  "world_showing status = \<lparr>reg_writes = [], reg_reads = 0, reg_value = (\<lambda>n i. status), slept_us = 0\<rparr>"

definition env_no_device :: os_env where
  "env_no_device = \<lparr>open_neurax0 = - 1, open_uio0 = - 1, mmap_result = MAP_FAILED, calloc_ok = True\<rparr>"

text \<open>
  Tensors: a single uint8 element, a float32 row vector, float32 grids of 2 by 2 and
  3 by 3, and a one-column float32 tensor of height \<open>2^31\<close> with every element equal to
  \<open>v\<close>.
\<close>

definition px_u8 :: neurax_tensor where
  "px_u8 = \<lparr>data = Some (U8 [0]), width = 1, height = 1, channels = 1, batch_size = 1,
            data_type = NEURAX_DATA_UINT8, data_size = 1\<rparr>"

definition vec_f32 :: "real list \<Rightarrow> neurax_tensor" where
  "vec_f32 xs = \<lparr>data = Some (F32 xs), width = of_nat (length xs), height = 1, channels = 1,
                 batch_size = 1, data_type = NEURAX_DATA_FLOAT32, data_size = 4 * of_nat (length xs)\<rparr>"

definition grid2 :: "real list \<Rightarrow> neurax_tensor" where
  "grid2 xs = \<lparr>data = Some (F32 xs), width = 2, height = 2, channels = 1, batch_size = 1,
               data_type = NEURAX_DATA_FLOAT32, data_size = 16\<rparr>"

definition grid3 :: "real list \<Rightarrow> neurax_tensor" where
  "grid3 xs = \<lparr>data = Some (F32 xs), width = 3, height = 3, channels = 1, batch_size = 1,
               data_type = NEURAX_DATA_FLOAT32, data_size = 36\<rparr>"

definition tall :: "real \<Rightarrow> neurax_tensor" where
  "tall v = \<lparr>data = Some (F32 (replicate (2 ^ 31) v)), width = 1, height = 0x80000000,
             channels = 1, batch_size = 1, data_type = NEURAX_DATA_FLOAT32,
             data_size = 0x200000000\<rparr>"

text \<open>
  A float32 tensor one element wide and two high, and the all-zero one-column tensor of
  height \<open>2^31\<close> after its first \<open>k\<close> elements have been set to 1.
\<close>

definition col2 :: "real list \<Rightarrow> neurax_tensor" where
  "col2 xs = \<lparr>data = Some (F32 xs), width = 1, height = 2, channels = 1, batch_size = 1,
              data_type = NEURAX_DATA_FLOAT32, data_size = 8\<rparr>"

definition tall_upto :: "nat \<Rightarrow> neurax_tensor" where
  "tall_upto k = \<lparr>data = Some (F32 (replicate k 1 @ replicate (2 ^ 31 - k) 0)), width = 1,
                  height = 0x80000000, channels = 1, batch_size = 1,
                  data_type = NEURAX_DATA_FLOAT32, data_size = 0x200000000\<rparr>"

text \<open>
  Configurations: pooling with a 1 by 1 window, average pooling with a 2 by 2 window and
  stride 2, the same with horizontal stride \<open>2^32 - 1\<close>, the identity convolution (1 by 1
  kernel, stride 1, no padding, no bias, linear activation), and the same convolution with
  padding \<open>2^31\<close>.
\<close>

definition pool1 :: neurax_pool_config where
  "pool1 = \<lparr>pool_width = 1, pool_height = 1, pstride_x = 1, pstride_y = 1,
            pool_type = NEURAX_POOL_MAX\<rparr>"

definition pool_avg2 :: neurax_pool_config where
  "pool_avg2 = \<lparr>pool_width = 2, pool_height = 2, pstride_x = 2, pstride_y = 2,
                pool_type = NEURAX_POOL_AVERAGE\<rparr>"

definition pool_avg2_far :: neurax_pool_config where
  "pool_avg2_far = \<lparr>pool_width = 2, pool_height = 2, pstride_x = 0xFFFFFFFF, pstride_y = 2,
                    pool_type = NEURAX_POOL_AVERAGE\<rparr>"

definition conv_identity :: neurax_conv_config where
  "conv_identity = \<lparr>kernel_width = 1, kernel_height = 1, stride_x = 1, stride_y = 1,
                     padding_x = 0, padding_y = 0, input_channels = 1, output_channels = 1,
                     use_bias = False, activation = NEURAX_ACTIVATION_LINEAR\<rparr>"

definition conv_wrapping_pad :: neurax_conv_config where
  "conv_wrapping_pad = \<lparr>kernel_width = 1, kernel_height = 1, stride_x = 1, stride_y = 1,
                         padding_x = 0x80000000, padding_y = 0x80000000, input_channels = 1,
                         output_channels = 1, use_bias = False,
                         activation = NEURAX_ACTIVATION_LINEAR\<rparr>"

subsection \<open>The taps of a pooling window\<close>

text \<open>
  The coordinates that the window scan of output cell \<open>(out_y, out_x)\<close> visits and that
  pass the bounds test of the kernel, in scan order (rows of the window, then columns),
  and the values read there, when every read is defined.
\<close>

definition window_taps :: "neurax_tensor \<Rightarrow> neurax_pool_config \<Rightarrow> u32 \<Rightarrow> u32 \<Rightarrow> (u32 \<times> u32) list" where
  "window_taps input config out_y out_x =
     filter (\<lambda>(in_y, in_x). in_y < height input \<and> in_x < width input)
       (concat (map (\<lambda>py. map (\<lambda>px. (out_y * pstride_y config + of_nat py,
                                        out_x * pstride_x config + of_nat px))
                              [0..<unat (pool_width config)])
                    [0..<unat (pool_height config)]))"

definition tap_values ::
  "neurax_tensor \<Rightarrow> neurax_pool_config \<Rightarrow> u32 \<Rightarrow> u32 \<Rightarrow> u32 \<Rightarrow> u32 \<Rightarrow> real list option" where
  "tap_values input config batch ch out_y out_x =
     those (map (\<lambda>(in_y, in_x). neurax_get_tensor_value input batch in_y in_x ch)
                (window_taps input config out_y out_x))"

section \<open>Verified properties\<close>

text \<open>
  C6. \<open>neurax_validate_conv_config\<close> answers \<open>NEURAX_ERROR_INVALID_PARAM\<close> exactly when the
  kernel width or height is 0 or above 11, a stride is 0 or above 8, the input or output
  channel count is 0, or the activation selector lies beyond the last enumerator; every
  other configuration is accepted. In particular kernel size 13 and stride 9 are rejected,
  and the boundary values kernel size 11 and stride 8 are accepted.
\<close>

theorem validate_conv_config_spec:
  "neurax_validate_conv_config (Some c) =
     (if kernel_width c = 0 \<or> kernel_height c = 0 \<or> 11 < kernel_width c \<or> 11 < kernel_height c
         \<or> stride_x c = 0 \<or> stride_y c = 0 \<or> 8 < stride_x c \<or> 8 < stride_y c
         \<or> input_channels c = 0 \<or> output_channels c = 0 \<or> 3 < activation c
      then NEURAX_ERROR_INVALID_PARAM else NEURAX_SUCCESS)
   \<and> neurax_validate_conv_config (Some (c\<lparr>kernel_width := 13\<rparr>)) = NEURAX_ERROR_INVALID_PARAM
   \<and> neurax_validate_conv_config (Some (c\<lparr>kernel_height := 13\<rparr>)) = NEURAX_ERROR_INVALID_PARAM
   \<and> neurax_validate_conv_config (Some (c\<lparr>stride_x := 9\<rparr>)) = NEURAX_ERROR_INVALID_PARAM
   \<and> neurax_validate_conv_config (Some (c\<lparr>stride_y := 9\<rparr>)) = NEURAX_ERROR_INVALID_PARAM
   \<and> neurax_validate_conv_config
        (Some \<lparr>kernel_width = 11, kernel_height = 11, stride_x = 8, stride_y = 8,
               padding_x = px, padding_y = py, input_channels = 1, output_channels = 1,
               use_bias = ub, activation = NEURAX_ACTIVATION_LINEAR\<rparr>) = NEURAX_SUCCESS"
  by (simp add: neurax_validate_conv_config_def NEURAX_ACTIVATION_LINEAR_def)

subsection \<open>Rounding to binary32\<close>

lemma round_even_of_int [simp]: "round_even (real_of_int z) = z"
  by (simp add: round_even_def)

text \<open>
  A value \<open>m * 2^k\<close> with a significand of at most 24 bits and an exponent not below the
  subnormal range is a binary32 value, and rounding leaves it alone.
\<close>

lemma f32_exact:
  assumes m: "\<bar>m\<bar> < 2 ^ 24" and k: "- 149 \<le> k"
  shows "f32 (real_of_int m * 2 powr real_of_int k) = real_of_int m * 2 powr real_of_int k"
proof (cases "m = 0")
  case True
  then show ?thesis by (simp add: f32_def)
next
  case False
  let ?x = "real_of_int m * 2 powr real_of_int k"
  have x0: "?x \<noteq> 0" using False by simp
  have ax: "\<bar>?x\<bar> = real_of_int \<bar>m\<bar> * 2 powr real_of_int k" by (simp add: abs_mult)
  have "real_of_int \<bar>m\<bar> < 2 ^ 24" using m by (metis of_int_less_numeral_power_cancel_iff)
  then have "\<bar>?x\<bar> < 2 ^ 24 * 2 powr real_of_int k"
    unfolding ax by (intro mult_strict_right_mono) simp_all
  also have "\<dots> = 2 powr (24 + real_of_int k)"
    by (simp add: powr_add)
  finally have "log 2 \<bar>?x\<bar> < 24 + real_of_int k"
    using x0 by (simp add: log_less_iff del: abs_mult)
  then have "\<lfloor>log 2 \<bar>?x\<bar>\<rfloor> < 24 + k"
    by (simp add: floor_less_iff)
  with k have e: "max \<lfloor>log 2 \<bar>?x\<bar>\<rfloor> (- 126) - 23 \<le> k" by simp
  define j where "j = nat (k - (max \<lfloor>log 2 \<bar>?x\<bar>\<rfloor> (- 126) - 23))"
  have kj: "real_of_int k = real_of_int (max \<lfloor>log 2 \<bar>?x\<bar>\<rfloor> (- 126) - 23) + real j"
    using e by (simp add: j_def)
  have u: "float_ulp ?x = 2 powr real_of_int (max \<lfloor>log 2 \<bar>?x\<bar>\<rfloor> (- 126) - 23)"
    by (simp only: float_ulp_def)
  have "2 powr real_of_int k = float_ulp ?x * 2 ^ j"
    unfolding u by (subst kj) (simp only: powr_add powr_realpow zero_less_numeral)
  then have q: "?x = real_of_int (m * 2 ^ j) * float_ulp ?x" by (simp add: mult_ac)
  have up: "float_ulp ?x \<noteq> 0" by (simp add: float_ulp_def)
  from q up have "?x / float_ulp ?x = real_of_int (m * 2 ^ j)"
    by (metis nonzero_mult_div_cancel_right)
  then have "round_even (?x / float_ulp ?x) = m * 2 ^ j" by (simp only: round_even_of_int)
  then have "f32 ?x = real_of_int (m * 2 ^ j) * float_ulp ?x"
    using x0 by (simp only: f32_def if_False)
  with q show ?thesis by (simp only:)
qed

lemma f32_of_int: "\<bar>m\<bar> < 2 ^ 24 \<Longrightarrow> f32 (real_of_int m) = real_of_int m"
  using f32_exact [of m 0] by simp

lemma f32_0 [simp]: "f32 0 = 0"
  by (simp add: f32_def)

lemma f32_1 [simp]: "f32 1 = 1"
  using f32_of_int [of 1] by simp

lemma f32_numeral [simp]: "numeral n < (2 ^ 24 :: int) \<Longrightarrow> f32 (numeral n) = numeral n"
  using f32_of_int [of "numeral n"] by simp

lemma f32_neg_numeral [simp]:
  "numeral n < (2 ^ 24 :: int) \<Longrightarrow> f32 (- numeral n) = - numeral n"
  using f32_of_int [of "- numeral n"] by simp

lemma f32_halves: "\<bar>m\<bar> < 2 ^ 24 \<Longrightarrow> f32 (real_of_int m / 2) = real_of_int m / 2"
proof -
  assume a: "\<bar>m\<bar> < 2 ^ 24"
  have p: "2 powr real_of_int (- 1) = (1 / 2 :: real)"
    by (simp add: powr_minus_divide)
  have "f32 (real_of_int m * 2 powr real_of_int (- 1)) = real_of_int m * 2 powr real_of_int (- 1)"
    using a by (intro f32_exact) simp_all
  then show ?thesis unfolding p by simp
qed

subsection \<open>Loops and element writes\<close>

lemma c_trunc_between:
  assumes "real_of_int a \<le> x" "x \<le> real_of_int b"
  shows "a \<le> c_trunc x \<and> c_trunc x \<le> b"
  using assms unfolding c_trunc_def
  by (auto simp: le_floor_iff floor_le_iff ceiling_le_iff le_ceiling_iff)

lemma clamp_eq_max_min: "fmax lo (fmin hi v) = max lo (min hi v)"
  by (auto simp: fmax_def fmin_def max_def min_def)

lemma c_trunc_of_int [simp]: "c_trunc (real_of_int z) = z"
  by (simp add: c_trunc_def)

lemma float_of_cast_uint8:
  "float_of_uint8 (cast_uint8 (fmax 0 (fmin 255 v))) = real_of_int (c_trunc (max 0 (min 255 v)))"
proof -
  let ?z = "c_trunc (max 0 (min 255 v))"
  have "0 \<le> ?z \<and> ?z \<le> 255"
    by (rule c_trunc_between) auto
  then have "uint (word_of_int ?z :: 8 word) = ?z"
    by (simp add: uint_word_of_int)
  then have "unat (word_of_int ?z :: 8 word) = nat ?z"
    by (simp add: unat_eq_nat_uint)
  with \<open>0 \<le> ?z \<and> ?z \<le> 255\<close> show ?thesis
    by (simp add: float_of_uint8_def cast_uint8_def clamp_eq_max_min)
qed

lemma float_of_cast_uint16:
  "float_of_uint16 (cast_uint16 (fmax 0 (fmin 65535 v))) = real_of_int (c_trunc (max 0 (min 65535 v)))"
proof -
  let ?z = "c_trunc (max 0 (min 65535 v))"
  have b: "0 \<le> ?z \<and> ?z \<le> 65535"
    by (rule c_trunc_between) auto
  then have "uint (word_of_int ?z :: 16 word) = ?z"
    by (simp add: uint_word_of_int)
  then have "unat (word_of_int ?z :: 16 word) = nat ?z"
    by (simp add: unat_eq_nat_uint)
  with b show ?thesis
    by (simp add: float_of_uint16_def cast_uint16_def clamp_eq_max_min)
qed

lemma float_of_cast_int8:
  "float_of_int8 (cast_int8 (fmax (- 128) (fmin 127 v))) = real_of_int (c_trunc (max (- 128) (min 127 v)))"
proof -
  let ?z = "c_trunc (max (- 128) (min 127 v))"
  have b: "- 128 \<le> ?z \<and> ?z \<le> 127"
    by (rule c_trunc_between) auto
  then have "sint (word_of_int ?z :: 8 word) = ?z"
    by (simp add: int_word_sint)
  then show ?thesis
    by (simp add: float_of_int8_def cast_int8_def clamp_eq_max_min)
qed

lemma float_of_cast_int16:
  "float_of_int16 (cast_int16 (fmax (- 32768) (fmin 32767 v))) = real_of_int (c_trunc (max (- 32768) (min 32767 v)))"
proof -
  let ?z = "c_trunc (max (- 32768) (min 32767 v))"
  have b: "- 32768 \<le> ?z \<and> ?z \<le> 32767"
    by (rule c_trunc_between) auto
  then have "sint (word_of_int ?z :: 16 word) = ?z"
    by (simp add: int_word_sint)
  then show ?thesis
    by (simp add: float_of_int16_def cast_int16_def clamp_eq_max_min)
qed

lemmas float_of_cast = float_of_cast_uint8 float_of_cast_int8 float_of_cast_uint16 float_of_cast_int16

lemmas as_defs = as_uint8_def as_int8_def as_uint16_def as_int16_def as_float_def

lemma set_get_tensor_value:
  assumes "data t = Some b" "buffer_type b = data_type t"
    and "unat (((bt * height t + y) * width t + x) * channels t + c) < buffer_len b"
  shows "\<exists>t'. neurax_set_tensor_value t bt y x c v = Some t'
            \<and> neurax_get_tensor_value t' bt y x c = Some (clamp_then_truncate (data_type t) v)"
  using assms
  by (cases b)
     (auto simp: neurax_set_tensor_value_def neurax_get_tensor_value_def buffer_type_def
        buffer_len_def as_defs ld_def st_def clamp_then_truncate_def float_of_cast Let_def)

lemma set_get_tensor_element:
  assumes "data t = Some b" "buffer_type b = data_type t" "unat i < buffer_len b"
  shows "\<exists>t'. neurax_set_tensor_element t i v = Some t'
            \<and> neurax_get_tensor_element t' i = Some (clamp_then_truncate (data_type t) v)"
  using assms
  by (cases b)
     (auto simp: neurax_set_tensor_element_def neurax_get_tensor_element_def buffer_type_def
        buffer_len_def as_defs ld_def st_def clamp_then_truncate_def float_of_cast)


lemma for_range_0 [simp]: "for_range 0 body s = Some s"
  by (simp add: for_range_def)

lemma for_range_Suc: "for_range (Suc n) body s = Option.bind (for_range n body s) (body n)"
  by (simp add: for_range_def)

lemma for_range_total:
  assumes init: "P 0 s"
    and step: "\<And>i s. i < n \<Longrightarrow> P i s \<Longrightarrow> \<exists>s'. body i s = Some s' \<and> P (Suc i) s'"
  shows "\<exists>s'. for_range n body s = Some s' \<and> P n s'"
proof -
  have "k \<le> n \<Longrightarrow> \<exists>s'. for_range k body s = Some s' \<and> P k s'" for k
  proof (induction k)
    case 0
    show ?case using init by simp
  next
    case (Suc k)
    then obtain s1 where s1: "for_range k body s = Some s1" "P k s1" by auto
    from Suc.prems have "k < n" by simp
    from step [OF this s1(2)] obtain s2 where "body k s1 = Some s2" "P (Suc k) s2" by auto
    with s1 show ?case by (simp add: for_range_Suc)
  qed
  then show ?thesis by simp
qed

lemma for_range_preserves:
  assumes step: "\<And>i s s'. i < n \<Longrightarrow> Q s \<Longrightarrow> body i s = Some s' \<Longrightarrow> Q s'"
    and "Q s" and "for_range n body s = Some s'"
  shows "Q s'"
proof -
  have "k \<le> n \<Longrightarrow> for_range k body s = Some r \<Longrightarrow> Q r" for k r
  proof (induction k arbitrary: r)
    case 0
    then show ?case using \<open>Q s\<close> by simp
  next
    case (Suc k)
    from Suc.prems(2) obtain s1 where s1: "for_range k body s = Some s1" "body k s1 = Some r"
      by (auto simp: for_range_Suc bind_eq_Some_conv)
    from Suc.IH [OF _ s1(1)] Suc.prems(1) have "Q s1" by simp
    with step [of k s1 r] s1(2) Suc.prems(1) show ?case by simp
  qed
  with assms show ?thesis by blast
qed

lemma convert_read_Some:
  assumes "buffer_type s = sty" "i < buffer_len s"
  shows "\<exists>x. convert_read s sty i = Some x"
  using assms
  by (cases s) (auto simp: convert_read_def buffer_type_def buffer_len_def as_defs ld_def)

lemma convert_write_read:
  assumes "buffer_type d = dty" "i < buffer_len d"
  shows "\<exists>d'. convert_write d dty i v = Some d' \<and> buffer_type d' = dty
           \<and> buffer_len d' = buffer_len d
           \<and> convert_read d' dty i = Some (clamp_then_truncate dty v)
           \<and> (\<forall>j. j \<noteq> i \<longrightarrow> convert_read d' dty j = convert_read d dty j)"
  using assms
  by (cases d)
     (auto simp: convert_write_def convert_read_def buffer_type_def buffer_len_def as_defs
        ld_def st_def clamp_then_truncate_def float_of_cast)

lemma clamp_then_truncate_stored:
  assumes "buffer_type s = ty" "convert_read s ty i = Some x"
  shows "clamp_then_truncate ty x = x"
proof (cases s)
  case (U8 d)
  with assms obtain w :: "8 word" where "x = float_of_uint8 w"
    by (auto simp: convert_read_def buffer_type_def as_defs ld_def split: if_splits)
  moreover define n where "n = unat w"
  ultimately have x: "x = real n" by (simp only: float_of_uint8_def)
  have "unat w < 2 ^ LENGTH(8)" by (rule unsigned_less)
  then have "n \<le> 255" by (simp add: n_def)
  then have "max 0 (min 255 (real n)) = real_of_int (int n)" by simp
  then have "c_trunc (max 0 (min 255 (real n))) = int n"
    by (simp only: c_trunc_of_int)
  with x show ?thesis using assms(1) U8
    by (simp add: clamp_then_truncate_def buffer_type_def)
next
  case (I8 d)
  with assms obtain w :: "8 word" where "x = float_of_int8 w"
    by (auto simp: convert_read_def buffer_type_def as_defs ld_def split: if_splits)
  moreover define z where "z = sint w"
  ultimately have x: "x = real_of_int z" by (simp only: float_of_int8_def)
  have "- 128 \<le> z \<and> z \<le> 127"
    using sint_ge [of w] sint_lt [of w] by (simp add: z_def)
  then have "max (- 128) (min 127 (real_of_int z)) = real_of_int z" by simp
  then have "c_trunc (max (- 128) (min 127 (real_of_int z))) = z"
    by (simp only: c_trunc_of_int)
  with x show ?thesis using assms(1) I8
    by (simp add: clamp_then_truncate_def buffer_type_def)
next
  case (U16 d)
  with assms obtain w :: "16 word" where "x = float_of_uint16 w"
    by (auto simp: convert_read_def buffer_type_def as_defs ld_def split: if_splits)
  moreover define n where "n = unat w"
  ultimately have x: "x = real n" by (simp only: float_of_uint16_def)
  have "unat w < 2 ^ LENGTH(16)" by (rule unsigned_less)
  then have "n \<le> 65535" by (simp add: n_def)
  then have "max 0 (min 65535 (real n)) = real_of_int (int n)" by simp
  then have "c_trunc (max 0 (min 65535 (real n))) = int n"
    by (simp only: c_trunc_of_int)
  with x show ?thesis using assms(1) U16
    by (simp add: clamp_then_truncate_def buffer_type_def)
next
  case (I16 d)
  with assms obtain w :: "16 word" where "x = float_of_int16 w"
    by (auto simp: convert_read_def buffer_type_def as_defs ld_def split: if_splits)
  moreover define z where "z = sint w"
  ultimately have x: "x = real_of_int z" by (simp only: float_of_int16_def)
  have "- 32768 \<le> z \<and> z \<le> 32767"
    using sint_ge [of w] sint_lt [of w] by (simp add: z_def)
  then have "max (- 32768) (min 32767 (real_of_int z)) = real_of_int z" by simp
  then have "c_trunc (max (- 32768) (min 32767 (real_of_int z))) = z"
    by (simp only: c_trunc_of_int)
  with x show ?thesis using assms(1) I16
    by (simp add: clamp_then_truncate_def buffer_type_def)
next
  case (F32 d)
  with assms(1) show ?thesis by (simp add: clamp_then_truncate_def buffer_type_def)
qed


lemma unat_of_nat_below:
  "i < unat (n :: 'a::len word) \<Longrightarrow> unat (of_nat i :: 'a word) = i"
proof -
  assume "i < unat n"
  moreover have "unat n < 2 ^ LENGTH('a)" by (rule unsigned_less)
  ultimately have "i < 2 ^ LENGTH('a)" by (rule less_trans)
  then show ?thesis by (simp add: unat_of_nat)
qed

lemma memcpy_same_read:
  assumes "buffer_type s = ty" "buffer_type d = ty" "n \<le> buffer_len s" "n \<le> buffer_len d"
  shows "\<exists>d'. memcpy_same s d ty n = Some d' \<and> buffer_type d' = ty
           \<and> buffer_len d' = buffer_len d
           \<and> (\<forall>i<n. convert_read d' ty i = convert_read s ty i)"
  using assms
  by (cases s; cases d)
     (auto simp: memcpy_same_def copy_elems_def convert_read_def buffer_type_def buffer_len_def
        as_defs ld_def nth_append)

lemma convert_loop:
  assumes ty: "buffer_type s = sty" "buffer_type d = dty"
    and len: "unat n \<le> buffer_len s" "unat n \<le> buffer_len d"
  shows "\<exists>d'. for_size n (\<lambda>i d. do {
             temp_value \<leftarrow> convert_read s sty (unat i);
             convert_write d dty (unat i) temp_value }) d = Some d'
           \<and> buffer_type d' = dty \<and> buffer_len d' = buffer_len d
           \<and> (\<forall>i<unat n. \<exists>x. convert_read s sty i = Some x
                  \<and> convert_read d' dty i = Some (clamp_then_truncate dty x))"
proof -
  let ?P = "\<lambda>k b. buffer_type b = dty \<and> buffer_len b = buffer_len d
              \<and> (\<forall>i<k. \<exists>x. convert_read s sty i = Some x
                     \<and> convert_read b dty i = Some (clamp_then_truncate dty x))"
  let ?body = "\<lambda>i b. do {
             temp_value \<leftarrow> convert_read s sty (unat (of_nat i :: size_t));
             convert_write b dty (unat (of_nat i :: size_t)) temp_value }"
  have "\<exists>d'. for_range (unat n) ?body d = Some d' \<and> ?P (unat n) d'"
  proof (rule for_range_total)
    show "?P 0 d" using ty by simp
  next
    fix i b
    assume i: "i < unat n" and inv: "?P i b"
    have ui: "unat (of_nat i :: size_t) = i" using i by (rule unat_of_nat_below)
    from i len have "i < buffer_len s" "i < buffer_len b" using inv by auto
    from convert_read_Some [OF ty(1) this(1)] obtain x where x: "convert_read s sty i = Some x" ..
    from convert_write_read [of b dty i x] inv \<open>i < buffer_len b\<close>
    obtain b' where b': "convert_write b dty i x = Some b'" "buffer_type b' = dty"
      "buffer_len b' = buffer_len b" "convert_read b' dty i = Some (clamp_then_truncate dty x)"
      "\<forall>j. j \<noteq> i \<longrightarrow> convert_read b' dty j = convert_read b dty j"
      by blast
    have "?P (Suc i) b'"
    proof (intro conjI allI impI)
      show "buffer_type b' = dty" by (rule b'(2))
      show "buffer_len b' = buffer_len d" using b'(3) inv by simp
      fix j assume "j < Suc i"
      show "\<exists>x. convert_read s sty j = Some x
               \<and> convert_read b' dty j = Some (clamp_then_truncate dty x)"
      proof (cases "j = i")
        case True
        with x b'(4) show ?thesis by simp
      next
        case False
        with \<open>j < Suc i\<close> have "j < i" by simp
        with inv b'(5) False show ?thesis by simp
      qed
    qed
    with x b'(1) ui show "\<exists>s'. ?body i b = Some s' \<and> ?P (Suc i) s'" by simp
  qed
  then show ?thesis by (auto simp: for_size_def)
qed

lemma convert_saturates:
  assumes ty: "buffer_type s = sty" "buffer_type d = dty"
    and n: "n \<noteq> 0" and len: "unat n \<le> buffer_len s" "unat n \<le> buffer_len d"
  shows "\<exists>d'. neurax_convert_data_type (Some s) sty (Some d) dty n = Some (NEURAX_SUCCESS, Some d')
           \<and> buffer_type d' = dty \<and> buffer_len d' = buffer_len d
           \<and> (\<forall>i<unat n. \<exists>x. convert_read s sty i = Some x
                  \<and> convert_read d' dty i = Some (clamp_then_truncate dty x))"
proof (cases "sty = dty")
  case True
  from memcpy_same_read [OF ty(1) ty(2) [folded True] len]
  obtain d' where d': "memcpy_same s d sty (unat n) = Some d'" "buffer_type d' = sty"
    "buffer_len d' = buffer_len d"
    "\<forall>i<unat n. convert_read d' sty i = convert_read s sty i" by blast
  have "\<exists>x. convert_read s sty i = Some x
           \<and> convert_read d' dty i = Some (clamp_then_truncate dty x)" if "i < unat n" for i
  proof -
    from that len have "i < buffer_len s" by simp
    from convert_read_Some [OF ty(1) this] obtain x where x: "convert_read s sty i = Some x" ..
    from clamp_then_truncate_stored [OF ty(1) x] x d'(4) that True show ?thesis by simp
  qed
  with d' True n show ?thesis by (simp add: neurax_convert_data_type_def)
next
  case False
  from convert_loop [OF ty len] False n show ?thesis
    by (auto simp: neurax_convert_data_type_def)
qed


lemma c_trunc_toward_zero:
  "\<bar>real_of_int (c_trunc x)\<bar> \<le> \<bar>x\<bar> \<and> \<bar>x - real_of_int (c_trunc x)\<bar> < 1"
proof (cases "0 \<le> x")
  case True
  then have "0 \<le> real_of_int \<lfloor>x\<rfloor>" by simp
  moreover have "real_of_int \<lfloor>x\<rfloor> \<le> x" "x < real_of_int \<lfloor>x\<rfloor> + 1"
    using floor_correct [of x] by simp_all
  ultimately have "\<bar>real_of_int \<lfloor>x\<rfloor>\<bar> \<le> \<bar>x\<bar> \<and> \<bar>x - real_of_int \<lfloor>x\<rfloor>\<bar> < 1"
    by linarith
  with True show ?thesis by (simp only: c_trunc_def if_True)
next
  case False
  then have "real_of_int \<lceil>x\<rceil> \<le> 0" by (simp add: ceiling_le_zero)
  moreover have "real_of_int \<lceil>x\<rceil> - 1 < x" "x \<le> real_of_int \<lceil>x\<rceil>"
    using ceiling_correct [of x] by simp_all
  ultimately have "\<bar>real_of_int \<lceil>x\<rceil>\<bar> \<le> \<bar>x\<bar> \<and> \<bar>x - real_of_int \<lceil>x\<rceil>\<bar> < 1"
    by linarith
  with False show ?thesis by (simp only: c_trunc_def if_False)
qed

lemma clamp_then_truncate_range:
  "(\<exists>z. clamp_then_truncate NEURAX_DATA_UINT8 v = real_of_int z \<and> 0 \<le> z \<and> z \<le> 255)
   \<and> (\<exists>z. clamp_then_truncate NEURAX_DATA_INT8 v = real_of_int z \<and> - 128 \<le> z \<and> z \<le> 127)
   \<and> (\<exists>z. clamp_then_truncate NEURAX_DATA_UINT16 v = real_of_int z \<and> 0 \<le> z \<and> z \<le> 65535)
   \<and> (\<exists>z. clamp_then_truncate NEURAX_DATA_INT16 v = real_of_int z \<and> - 32768 \<le> z \<and> z \<le> 32767)
   \<and> clamp_then_truncate NEURAX_DATA_FLOAT32 v = v"
proof -
  have "0 \<le> c_trunc (max 0 (min 255 v)) \<and> c_trunc (max 0 (min 255 v)) \<le> 255"
    by (rule c_trunc_between) auto
  moreover have "- 128 \<le> c_trunc (max (- 128) (min 127 v)) \<and> c_trunc (max (- 128) (min 127 v)) \<le> 127"
    by (rule c_trunc_between) auto
  moreover have "0 \<le> c_trunc (max 0 (min 65535 v)) \<and> c_trunc (max 0 (min 65535 v)) \<le> 65535"
    by (rule c_trunc_between) auto
  moreover have "- 32768 \<le> c_trunc (max (- 32768) (min 32767 v))
      \<and> c_trunc (max (- 32768) (min 32767 v)) \<le> 32767"
    by (rule c_trunc_between) auto
  ultimately show ?thesis
    by (simp add: clamp_then_truncate_def)
qed

text \<open>
  C1 (as amended). Every write of an element into a tensor whose storage has the tensor's
  element type, at an index inside the storage, succeeds; and the element read back is the
  written value clamped to the range of the element type (uint8 [0,255], int8 [-128,127],
  uint16 [0,65535], int16 [-32768,32767]) and then truncated toward zero: \<open>c_trunc\<close>
  discards the fractional part, it does not round to the nearest integer. This holds for
  the 4-index write of the convolution and pooling kernels, for the linear-index write of
  the activation kernel and for every element of a type conversion (which for equal source
  and destination types is a plain copy). For float32 the value is stored unchanged.
\<close>

theorem write_saturates_by_truncation:
  "(data t = Some b \<and> buffer_type b = data_type t
      \<and> unat (((bt * height t + y) * width t + x) * channels t + c) < buffer_len b
     \<longrightarrow> (\<exists>t'. neurax_set_tensor_value t bt y x c v = Some t'
            \<and> neurax_get_tensor_value t' bt y x c = Some (clamp_then_truncate (data_type t) v)))
   \<and> (data t = Some b \<and> buffer_type b = data_type t \<and> unat i < buffer_len b
     \<longrightarrow> (\<exists>t'. neurax_set_tensor_element t i v = Some t'
            \<and> neurax_get_tensor_element t' i = Some (clamp_then_truncate (data_type t) v)))
   \<and> (buffer_type s = sty \<and> buffer_type d = dty \<and> n \<noteq> 0
        \<and> unat n \<le> buffer_len s \<and> unat n \<le> buffer_len d
     \<longrightarrow> (\<exists>d'. neurax_convert_data_type (Some s) sty (Some d) dty n = Some (NEURAX_SUCCESS, Some d')
            \<and> (\<forall>k<unat n. \<exists>a. convert_read s sty k = Some a
                  \<and> convert_read d' dty k = Some (clamp_then_truncate dty a))))
   \<and> clamp_then_truncate NEURAX_DATA_UINT8 v = real_of_int (c_trunc (max 0 (min 255 v)))
   \<and> clamp_then_truncate NEURAX_DATA_INT8 v = real_of_int (c_trunc (max (- 128) (min 127 v)))
   \<and> clamp_then_truncate NEURAX_DATA_UINT16 v = real_of_int (c_trunc (max 0 (min 65535 v)))
   \<and> clamp_then_truncate NEURAX_DATA_INT16 v = real_of_int (c_trunc (max (- 32768) (min 32767 v)))
   \<and> clamp_then_truncate NEURAX_DATA_FLOAT32 v = v
   \<and> \<bar>real_of_int (c_trunc v)\<bar> \<le> \<bar>v\<bar> \<and> \<bar>v - real_of_int (c_trunc v)\<bar> < 1"
proof (intro conjI impI)
  assume "data t = Some b \<and> buffer_type b = data_type t
      \<and> unat (((bt * height t + y) * width t + x) * channels t + c) < buffer_len b"
  then show "\<exists>t'. neurax_set_tensor_value t bt y x c v = Some t'
            \<and> neurax_get_tensor_value t' bt y x c = Some (clamp_then_truncate (data_type t) v)"
    using set_get_tensor_value [of t b bt y x c v] by blast
next
  assume "data t = Some b \<and> buffer_type b = data_type t \<and> unat i < buffer_len b"
  then show "\<exists>t'. neurax_set_tensor_element t i v = Some t'
            \<and> neurax_get_tensor_element t' i = Some (clamp_then_truncate (data_type t) v)"
    using set_get_tensor_element [of t b i v] by blast
next
  assume "buffer_type s = sty \<and> buffer_type d = dty \<and> n \<noteq> 0
        \<and> unat n \<le> buffer_len s \<and> unat n \<le> buffer_len d"
  then show "\<exists>d'. neurax_convert_data_type (Some s) sty (Some d) dty n = Some (NEURAX_SUCCESS, Some d')
            \<and> (\<forall>k<unat n. \<exists>a. convert_read s sty k = Some a
                  \<and> convert_read d' dty k = Some (clamp_then_truncate dty a))"
    using convert_saturates [of s sty d dty n] by blast
qed (simp_all add: clamp_then_truncate_def c_trunc_toward_zero)

theorem write_saturates_by_truncation_witness:
  "(\<exists>t'. neurax_set_tensor_value px_u8 0 0 0 0 (11 / 4) = Some t'
        \<and> neurax_get_tensor_value t' 0 0 0 0 = Some 2)
   \<and> (\<exists>t'. neurax_set_tensor_element px_u8 0 300 = Some t'
        \<and> neurax_get_tensor_element t' 0 = Some 255)
   \<and> (\<exists>d'. neurax_convert_data_type (Some (F32 [- 7 / 2])) NEURAX_DATA_FLOAT32
              (Some (I8 [0])) NEURAX_DATA_INT8 1 = Some (NEURAX_SUCCESS, Some d')
        \<and> convert_read d' NEURAX_DATA_INT8 0 = Some (- 3))"
  using write_saturates_by_truncation [of px_u8 "U8 [0]" 0 0 0 0 "11 / 4" 0 "F32 [- 7 / 2]"
      NEURAX_DATA_FLOAT32 "I8 [0]" NEURAX_DATA_INT8 1]
    write_saturates_by_truncation [of px_u8 "U8 [0]" 0 0 0 0 300 0 "F32 [- 7 / 2]"
      NEURAX_DATA_FLOAT32 "I8 [0]" NEURAX_DATA_INT8 1]
  apply (simp add: px_u8_def buffer_type_def buffer_len_def clamp_then_truncate_def c_trunc_def
         convert_read_def as_defs ld_def)
  done

text \<open>
  C1 as stated fails: writing 2.75 into a uint8 element stores 2 through each of the three
  writers, whereas rounding the clamped value to the nearest integer gives 3.
\<close>

theorem store_rounds_counterexample:
  "neurax_set_tensor_element px_u8 0 (11 / 4) = Some (px_u8\<lparr>data := Some (U8 [2])\<rparr>)
   \<and> neurax_set_tensor_value px_u8 0 0 0 0 (11 / 4) = Some (px_u8\<lparr>data := Some (U8 [2])\<rparr>)
   \<and> neurax_convert_data_type (Some (F32 [11 / 4])) NEURAX_DATA_FLOAT32
        (Some (U8 [0])) NEURAX_DATA_UINT8 1 = Some (NEURAX_SUCCESS, Some (U8 [2]))
   \<and> round (max 0 (min 255 (11 / 4 :: real))) = 3"
  apply (simp add: px_u8_def neurax_set_tensor_element_def neurax_set_tensor_value_def
      neurax_convert_data_type_def for_size_def for_range_def convert_read_def convert_write_def
      as_defs ld_def st_def cast_uint8_def fmax_def fmin_def c_trunc_def round_def)
  done

subsection \<open>Conversion round trip\<close>

lemma buffer_type_U8: "buffer_type b = NEURAX_DATA_UINT8 \<Longrightarrow> \<exists>ys. b = U8 ys"
  by (cases b) (simp_all add: buffer_type_def)

lemma buffer_type_F32: "buffer_type b = NEURAX_DATA_FLOAT32 \<Longrightarrow> \<exists>ys. b = F32 ys"
  by (cases b) (simp_all add: buffer_type_def)

text \<open>
  C9. Converting float32 values to uint8 and back to float32 saturates: every converted
  element whose source value lies below 0 comes back as 0, and every one whose source value
  lies above 255 comes back as 255; no value wraps modulo 256. Both conversions succeed
  whenever the three arrays hold at least the converted number of elements.
\<close>

theorem float_uint8_roundtrip_saturates:
  assumes "n \<noteq> 0" "unat n \<le> length xs" "unat n \<le> length ys" "unat n \<le> length zs"
  shows "\<exists>ys' zs'.
           neurax_convert_data_type (Some (F32 xs)) NEURAX_DATA_FLOAT32
             (Some (U8 ys)) NEURAX_DATA_UINT8 n = Some (NEURAX_SUCCESS, Some (U8 ys'))
         \<and> neurax_convert_data_type (Some (U8 ys')) NEURAX_DATA_UINT8
             (Some (F32 zs)) NEURAX_DATA_FLOAT32 n = Some (NEURAX_SUCCESS, Some (F32 zs'))
         \<and> length zs' = length zs
         \<and> (\<forall>k<unat n. (xs ! k < 0 \<longrightarrow> zs' ! k = 0) \<and> (255 < xs ! k \<longrightarrow> zs' ! k = 255))"
proof -
  from convert_saturates [of "F32 xs" NEURAX_DATA_FLOAT32 "U8 ys" NEURAX_DATA_UINT8 n] assms
  obtain d1 where d1:
    "neurax_convert_data_type (Some (F32 xs)) NEURAX_DATA_FLOAT32 (Some (U8 ys)) NEURAX_DATA_UINT8 n
       = Some (NEURAX_SUCCESS, Some d1)"
    "buffer_type d1 = NEURAX_DATA_UINT8" "buffer_len d1 = length ys"
    "\<forall>k<unat n. \<exists>a. convert_read (F32 xs) NEURAX_DATA_FLOAT32 k = Some a
        \<and> convert_read d1 NEURAX_DATA_UINT8 k = Some (clamp_then_truncate NEURAX_DATA_UINT8 a)"
    by (auto simp: buffer_type_def buffer_len_def)
  from buffer_type_U8 [OF d1(2)] obtain ys' where ys': "d1 = U8 ys'" ..
  from convert_saturates [of d1 NEURAX_DATA_UINT8 "F32 zs" NEURAX_DATA_FLOAT32 n] assms d1(2,3)
  obtain d2 where d2:
    "neurax_convert_data_type (Some d1) NEURAX_DATA_UINT8 (Some (F32 zs)) NEURAX_DATA_FLOAT32 n
       = Some (NEURAX_SUCCESS, Some d2)"
    "buffer_type d2 = NEURAX_DATA_FLOAT32" "buffer_len d2 = length zs"
    "\<forall>k<unat n. \<exists>a. convert_read d1 NEURAX_DATA_UINT8 k = Some a
        \<and> convert_read d2 NEURAX_DATA_FLOAT32 k = Some (clamp_then_truncate NEURAX_DATA_FLOAT32 a)"
    by (auto simp: buffer_type_def buffer_len_def)
  from buffer_type_F32 [OF d2(2)] obtain zs' where zs': "d2 = F32 zs'" ..
  have len: "length zs' = length zs" using d2(3) zs' by (simp add: buffer_len_def)
  have "(xs ! k < 0 \<longrightarrow> zs' ! k = 0) \<and> (255 < xs ! k \<longrightarrow> zs' ! k = 255)" if k: "k < unat n" for k
  proof -
    from k assms have kx: "k < length xs" and kz: "k < length zs'" using len by simp_all
    from d1(4) k kx have r1: "convert_read d1 NEURAX_DATA_UINT8 k
        = Some (clamp_then_truncate NEURAX_DATA_UINT8 (xs ! k))"
      by (auto simp: convert_read_def as_defs ld_def)
    from d2(4) k r1 zs' kz have "zs' ! k = clamp_then_truncate NEURAX_DATA_UINT8 (xs ! k)"
      by (auto simp: convert_read_def as_defs ld_def clamp_then_truncate_def)
    then show ?thesis
      by (auto simp: clamp_then_truncate_def c_trunc_def max_def min_def)
  qed
  with d1(1) d2(1) ys' zs' len show ?thesis by auto
qed

theorem float_uint8_roundtrip_saturates_witness:
  "\<exists>ys' zs'.
      neurax_convert_data_type (Some (F32 [- 1, 300])) NEURAX_DATA_FLOAT32
        (Some (U8 [7, 7])) NEURAX_DATA_UINT8 2 = Some (NEURAX_SUCCESS, Some (U8 ys'))
    \<and> neurax_convert_data_type (Some (U8 ys')) NEURAX_DATA_UINT8
        (Some (F32 [1 / 2, 1 / 2])) NEURAX_DATA_FLOAT32 2 = Some (NEURAX_SUCCESS, Some (F32 zs'))
    \<and> zs' = [0, 255]"
proof -
  from float_uint8_roundtrip_saturates [of 2 "[- 1, 300]" "[7, 7]" "[1 / 2, 1 / 2]"]
  obtain ys' zs' where a:
    "neurax_convert_data_type (Some (F32 [- 1, 300])) NEURAX_DATA_FLOAT32
        (Some (U8 [7, 7])) NEURAX_DATA_UINT8 2 = Some (NEURAX_SUCCESS, Some (U8 ys'))"
    "neurax_convert_data_type (Some (U8 ys')) NEURAX_DATA_UINT8
        (Some (F32 [1 / 2, 1 / 2])) NEURAX_DATA_FLOAT32 2 = Some (NEURAX_SUCCESS, Some (F32 zs'))"
    "length zs' = 2"
    "\<forall>k<2. ([- 1, 300 :: real] ! k < 0 \<longrightarrow> zs' ! k = 0) \<and> (255 < [- 1, 300 :: real] ! k \<longrightarrow> zs' ! k = 255)"
    by auto
  from a(4) have "zs' ! 0 = 0" "zs' ! 1 = 255" by auto
  with a(3) have "zs' = [0, 255]"
    by (auto simp: list_eq_iff_nth_eq less_Suc_eq numeral_2_eq_2)
  with a show ?thesis by blast
qed

subsection \<open>The polling loop\<close>

lemma poll_status_index: "poll_status status m j = (e, r) \<Longrightarrow> j \<le> r \<and> (e \<noteq> NEURAX_ERROR_TIMEOUT \<longrightarrow> j < r)"
proof (induction m arbitrary: j)
  case 0
  then show ?case by simp
next
  case (Suc m)
  show ?case
  proof (cases "status j AND STAT_ERROR \<noteq> 0 \<or> status j AND STAT_DONE \<noteq> 0")
    case True
    with Suc.prems show ?thesis by (auto split: if_splits)
  next
    case False
    with Suc.prems have "poll_status status m (Suc j) = (e, r)" by simp
    from Suc.IH [OF this] show ?thesis by auto
  qed
qed

lemma wait_loop_poll:
  assumes hw: "hardware_available dev" "register_base dev \<noteq> NULL"
  shows "k + m = 50000 \<Longrightarrow>
         wait_loop dev 5000000 (of_nat (100 * k)) world
           = Some (after_poll world (poll_status (\<lambda>j. reg_value world j 1) m (reg_reads world)))"
proof (induction m arbitrary: k world)
  case 0
  then have "k = 50000" by simp
  then show ?case
    by (subst wait_loop.simps) (simp add: after_poll_def)
next
  case (Suc m)
  then have k: "k < 50000" and km: "Suc k + m = 50000" by simp_all
  have lt: "(of_nat (100 * k) :: u32) < 5000000"
  proof -
    from k have "100 * k < 5000000" by simp
    then have "100 * k \<le> unat (5000000 :: u32)" by simp
    then have "unat (of_nat (100 * k) :: u32) = 100 * k" by (rule le_unat_uoi)
    with k show ?thesis by (simp only: word_less_nat_alt) simp
  qed
  have step: "(of_nat (100 * k) :: u32) + 100 = of_nat (100 * Suc k)" by simp
  let ?w1 = "world\<lparr>reg_reads := reg_reads world + 1\<rparr>"
  have rd: "neurax_read_reg dev NEURAX_REG_STATUS world = (reg_value world (reg_reads world) 1, ?w1)"
    using hw by (simp add: neurax_read_reg_def NEURAX_REG_STATUS_def)
  show ?case
  proof (cases "reg_value world (reg_reads world) 1 AND STAT_ERROR \<noteq> 0")
    case True
    then show ?thesis using lt rd
      by (subst wait_loop.simps) (simp add: after_poll_def)
  next
    case noerr: False
    show ?thesis
    proof (cases "reg_value world (reg_reads world) 1 AND STAT_DONE \<noteq> 0")
      case True
      then show ?thesis using lt rd noerr
        by (subst wait_loop.simps) (simp add: after_poll_def)
    next
      case False
      obtain e r where er: "poll_status (\<lambda>j. reg_value world j 1) m (Suc (reg_reads world)) = (e, r)"
        by (cases "poll_status (\<lambda>j. reg_value world j 1) m (Suc (reg_reads world))")
      from poll_status_index [OF er] have r: "Suc (reg_reads world) \<le> r"
        "e \<noteq> NEURAX_ERROR_TIMEOUT \<longrightarrow> Suc (reg_reads world) < r" by simp_all
      have "wait_loop dev 5000000 (of_nat (100 * k)) world
            = wait_loop dev 5000000 (of_nat (100 * Suc k)) (usleep 100 ?w1)"
        using lt rd noerr False step by (subst wait_loop.simps) (simp add: add.commute)
      also have "\<dots> = Some (after_poll (usleep 100 ?w1)
            (poll_status (\<lambda>j. reg_value (usleep 100 ?w1) j 1) m (reg_reads (usleep 100 ?w1))))"
        by (rule Suc.IH [OF km])
      also have "\<dots> = Some (after_poll world (e, r))"
        using er r by (auto simp: after_poll_def usleep_def)
      finally show ?thesis using noerr False er by simp
    qed
  qed
qed

lemma wait_for_completion_default:
  assumes "hardware_available dev" "register_base dev \<noteq> NULL"
  shows "neurax_wait_for_completion dev NEURAX_DEFAULT_TIMEOUT_MS world
           = Some (after_poll world (poll_status (\<lambda>j. reg_value world j 1) 50000 (reg_reads world)))"
  using wait_loop_poll [OF assms, of 0 50000 world] assms
  by (simp add: neurax_wait_for_completion_def NEURAX_DEFAULT_TIMEOUT_MS_def)


subsection \<open>Argument checks of the operations\<close>

lemma validate_tensor_cases:
  "neurax_validate_tensor p = NEURAX_SUCCESS \<or> neurax_validate_tensor p = NEURAX_ERROR_INVALID_PARAM"
  by (auto simp: neurax_validate_tensor_def Let_def split: option.splits)

text \<open>
  C10. On an initialised device, \<open>neurax_activation\<close> on two tensors that differ in width,
  height, channels or batch size returns \<open>NEURAX_ERROR_INVALID_PARAM\<close>; the output tensor
  comes back as it was passed and the hardware sees no register access, so no element has
  been computed. (Valid or not: a tensor that fails validation is rejected with the same
  code one step earlier.)
\<close>

theorem activation_rejects_shape_mismatch:
  assumes "initialized dev"
    and "width inp \<noteq> width outp \<or> height inp \<noteq> height outp
         \<or> channels inp \<noteq> channels outp \<or> batch_size inp \<noteq> batch_size outp"
  shows "neurax_activation (Some dev) (Some inp) act (Some outp) world
           = Some (NEURAX_ERROR_INVALID_PARAM, Some outp, world)"
  using assms validate_tensor_cases [of "Some inp"] validate_tensor_cases [of "Some outp"]
  by (auto simp: neurax_activation_def)

theorem activation_rejects_shape_mismatch_witness:
  "neurax_validate_tensor (Some (vec_f32 [1, 2])) = NEURAX_SUCCESS
   \<and> neurax_validate_tensor (Some (vec_f32 [0])) = NEURAX_SUCCESS
   \<and> neurax_activation (Some dev_emulated) (Some (vec_f32 [1, 2])) NEURAX_ACTIVATION_RELU
        (Some (vec_f32 [0])) (world_showing 0)
      = Some (NEURAX_ERROR_INVALID_PARAM, Some (vec_f32 [0]), world_showing 0)"
  using activation_rejects_shape_mismatch [of dev_emulated "vec_f32 [1, 2]" "vec_f32 [0]"
      NEURAX_ACTIVATION_RELU "world_showing 0"]
  by (simp add: dev_emulated_def vec_f32_def neurax_validate_tensor_def neurax_get_element_size_def)


subsection \<open>Initialisation without hardware\<close>

lemma device_open_unreachable:
  assumes "(open_neurax0 env < 0 \<and> open_uio0 env < 0) \<or> mmap_result env = MAP_FAILED"
  shows "\<exists>dev'. neurax_device_open dev env = (NEURAX_SUCCESS, dev')
           \<and> \<not> hardware_available dev' \<and> dev_config dev' = dev_config dev"
  using assms by (auto simp: neurax_device_open_def Let_def)

lemma init_unreachable:
  assumes "calloc_ok env"
    and "(open_neurax0 env < 0 \<and> open_uio0 env < 0) \<or> mmap_result env = MAP_FAILED"
  shows "\<exists>dev. neurax_init (Some cfg) True env world = (NEURAX_SUCCESS, Some dev, usleep 1000 world)
           \<and> initialized dev \<and> \<not> hardware_available dev \<and> dev_config dev = cfg"
proof -
  let ?d0 = "\<lparr>dev_config = cfg, initialized = False, device_fd = - 1,
                       mapped_memory = NULL, mapped_size = 0, register_base = NULL,
                       hardware_available = False\<rparr>"
  from device_open_unreachable [OF assms(2), of ?d0]
  obtain dev' where d: "neurax_device_open ?d0 env = (NEURAX_SUCCESS, dev')"
    "\<not> hardware_available dev'" "dev_config dev' = cfg" by auto
  then show ?thesis using assms(1)
    by (simp add: neurax_init_def neurax_write_reg_def)
qed

text \<open>
  C7. When the hardware cannot be reached (neither device node opens, or the memory
  mapping fails) and the device record can be allocated, \<open>neurax_init\<close> returns
  \<open>NEURAX_SUCCESS\<close> with an initialised device whose \<open>hardware_available\<close> flag is
  clear; it touches no register (the only effect on the hardware side is the 1 ms sleep
  of the reset sequence). On that device each of the three operations, called
  with arguments that pass its checks, returns exactly what the CPU kernel returns and
  leaves the hardware untouched.
\<close>

theorem init_without_hardware_emulates:
  assumes "calloc_ok env"
    and "(open_neurax0 env < 0 \<and> open_uio0 env < 0) \<or> mmap_result env = MAP_FAILED"
  shows "\<exists>dev. neurax_init (Some cfg) True env world = (NEURAX_SUCCESS, Some dev, usleep 1000 world)
           \<and> initialized dev \<and> \<not> hardware_available dev \<and> dev_config dev = cfg
           \<and> (\<forall>inp wts bias c outp w.
                 neurax_validate_tensor (Some inp) = NEURAX_SUCCESS
                 \<and> neurax_validate_tensor (Some wts) = NEURAX_SUCCESS
                 \<and> neurax_validate_tensor (Some outp) = NEURAX_SUCCESS
                 \<and> neurax_validate_conv_config (Some c) = NEURAX_SUCCESS
                 \<and> (bias = None \<or> \<not> use_bias c \<or> neurax_validate_tensor bias = NEURAX_SUCCESS)
                 \<longrightarrow> neurax_conv2d (Some dev) (Some inp) (Some wts) bias (Some c) (Some outp) w
                       = map_option (\<lambda>(e, out). (e, Some out, w)) (neurax_cpu_conv2d inp wts bias c outp))
           \<and> (\<forall>inp c outp w.
                 neurax_validate_tensor (Some inp) = NEURAX_SUCCESS
                 \<and> neurax_validate_tensor (Some outp) = NEURAX_SUCCESS
                 \<and> neurax_validate_pool_config (Some c) = NEURAX_SUCCESS
                 \<longrightarrow> neurax_pooling (Some dev) (Some inp) (Some c) (Some outp) w
                       = map_option (\<lambda>(e, out). (e, Some out, w)) (neurax_cpu_pooling inp c outp))
           \<and> (\<forall>inp act outp w.
                 neurax_validate_tensor (Some inp) = NEURAX_SUCCESS
                 \<and> neurax_validate_tensor (Some outp) = NEURAX_SUCCESS
                 \<and> width inp = width outp \<and> height inp = height outp
                 \<and> channels inp = channels outp \<and> batch_size inp = batch_size outp
                 \<longrightarrow> neurax_activation (Some dev) (Some inp) act (Some outp) w
                       = map_option (\<lambda>(e, out). (e, Some out, w)) (neurax_cpu_activation inp act outp))"
proof -
  from init_unreachable [OF assms, of cfg world]
  obtain dev where d: "neurax_init (Some cfg) True env world = (NEURAX_SUCCESS, Some dev, usleep 1000 world)"
    "initialized dev" "\<not> hardware_available dev" "dev_config dev = cfg" by blast
  have conv: "neurax_conv2d (Some dev) (Some inp) (Some wts) bias (Some c) (Some outp) w
        = map_option (\<lambda>(e, out). (e, Some out, w)) (neurax_cpu_conv2d inp wts bias c outp)"
    if "neurax_validate_tensor (Some inp) = NEURAX_SUCCESS
        \<and> neurax_validate_tensor (Some wts) = NEURAX_SUCCESS
        \<and> neurax_validate_tensor (Some outp) = NEURAX_SUCCESS
        \<and> neurax_validate_conv_config (Some c) = NEURAX_SUCCESS
        \<and> (bias = None \<or> \<not> use_bias c \<or> neurax_validate_tensor bias = NEURAX_SUCCESS)"
    for inp wts bias c outp w
    using that d(2,3)
    by (cases "neurax_cpu_conv2d inp wts bias c outp") (auto simp: neurax_conv2d_def)
  have pool: "neurax_pooling (Some dev) (Some inp) (Some c) (Some outp) w
        = map_option (\<lambda>(e, out). (e, Some out, w)) (neurax_cpu_pooling inp c outp)"
    if "neurax_validate_tensor (Some inp) = NEURAX_SUCCESS
        \<and> neurax_validate_tensor (Some outp) = NEURAX_SUCCESS
        \<and> neurax_validate_pool_config (Some c) = NEURAX_SUCCESS"
    for inp c outp w
    using that d(2,3)
    by (cases "neurax_cpu_pooling inp c outp") (auto simp: neurax_pooling_def)
  have act: "neurax_activation (Some dev) (Some inp) a (Some outp) w
        = map_option (\<lambda>(e, out). (e, Some out, w)) (neurax_cpu_activation inp a outp)"
    if "neurax_validate_tensor (Some inp) = NEURAX_SUCCESS
        \<and> neurax_validate_tensor (Some outp) = NEURAX_SUCCESS
        \<and> width inp = width outp \<and> height inp = height outp
        \<and> channels inp = channels outp \<and> batch_size inp = batch_size outp"
    for inp a outp w
    using that d(2,3)
    by (cases "neurax_cpu_activation inp a outp") (auto simp: neurax_activation_def)
  show ?thesis
  proof (intro exI [of _ dev] conjI allI impI)
    show "neurax_init (Some cfg) True env world = (NEURAX_SUCCESS, Some dev, usleep 1000 world)"
      by (rule d(1))
  qed (simp_all add: d conv pool act)
qed


lemma upt_2 [simp]: "[0..<2] = [0, Suc 0]"
  by (simp add: numeral_2_eq_2)

lemma cpu_activation_example:
  "neurax_cpu_activation (vec_f32 [- 1, 2]) NEURAX_ACTIVATION_RELU (vec_f32 [5, 5])
     = Some (NEURAX_SUCCESS, vec_f32 [0, 2])"
  by (simp add: neurax_cpu_activation_def neurax_tensor_total_elements_def vec_f32_def
      for_size_def for_range_def neurax_get_tensor_element_def neurax_set_tensor_element_def
      as_defs ld_def st_def neurax_apply_activation_def NEURAX_ACTIVATION_RELU_def fmax_def)

theorem init_without_hardware_emulates_witness:
  "\<exists>dev. neurax_init (Some cfg0) True env_no_device (world_showing 0)
            = (NEURAX_SUCCESS, Some dev, usleep 1000 (world_showing 0))
         \<and> initialized dev \<and> \<not> hardware_available dev
         \<and> neurax_activation (Some dev) (Some (vec_f32 [- 1, 2])) NEURAX_ACTIVATION_RELU
              (Some (vec_f32 [5, 5])) (world_showing 0)
            = Some (NEURAX_SUCCESS, Some (vec_f32 [0, 2]), world_showing 0)"
proof -
  have e: "calloc_ok env_no_device"
    "(open_neurax0 env_no_device < 0 \<and> open_uio0 env_no_device < 0)
       \<or> mmap_result env_no_device = MAP_FAILED"
    by (simp_all add: env_no_device_def)
  have v: "neurax_validate_tensor (Some (vec_f32 [- 1, 2])) = NEURAX_SUCCESS"
    "neurax_validate_tensor (Some (vec_f32 [5, 5])) = NEURAX_SUCCESS"
    by (simp_all add: vec_f32_def neurax_validate_tensor_def neurax_get_element_size_def)
  from init_without_hardware_emulates [OF e, of cfg0 "world_showing 0"]
  obtain dev where d:
    "neurax_init (Some cfg0) True env_no_device (world_showing 0)
       = (NEURAX_SUCCESS, Some dev, usleep 1000 (world_showing 0))"
    "initialized dev" "\<not> hardware_available dev"
    "\<forall>inp act outp w.
        neurax_validate_tensor (Some inp) = NEURAX_SUCCESS
        \<and> neurax_validate_tensor (Some outp) = NEURAX_SUCCESS
        \<and> width inp = width outp \<and> height inp = height outp
        \<and> channels inp = channels outp \<and> batch_size inp = batch_size outp
        \<longrightarrow> neurax_activation (Some dev) (Some inp) act (Some outp) w
              = map_option (\<lambda>(e, out). (e, Some out, w)) (neurax_cpu_activation inp act outp)"
    by blast
  from d(4) v have "neurax_activation (Some dev) (Some (vec_f32 [- 1, 2])) NEURAX_ACTIVATION_RELU
              (Some (vec_f32 [5, 5])) (world_showing 0)
        = map_option (\<lambda>(e, out). (e, Some out, world_showing 0))
            (neurax_cpu_activation (vec_f32 [- 1, 2]) NEURAX_ACTIVATION_RELU (vec_f32 [5, 5]))"
    by (simp add: vec_f32_def)
  with d(1-3) show ?thesis by (simp add: cpu_activation_example)
qed


subsection \<open>Hardware legs\<close>

lemma write_reg_hw:
  "hardware_available dev \<Longrightarrow> register_base dev \<noteq> NULL \<Longrightarrow>
   neurax_write_reg dev offset val world = world\<lparr>reg_writes := reg_writes world @ [(offset div 4, val)]\<rparr>"
  by (simp add: neurax_write_reg_def)

lemma poll_status_outcome:
  "fst (poll_status status m j) \<in> {NEURAX_SUCCESS, NEURAX_ERROR_HARDWARE_FAILURE, NEURAX_ERROR_TIMEOUT}"
  by (induction m arbitrary: j) auto

lemma hw_activation_result:
  assumes "hardware_available dev" "register_base dev \<noteq> NULL"
    and "poll_status (\<lambda>j. reg_value world j 1) 50000 (reg_reads world) = (e, r)"
  shows "map_option (\<lambda>(e, out, w). (e, out)) (neurax_hw_activation dev inp act outp world)
           = (if e \<noteq> NEURAX_SUCCESS then Some (e, outp) else neurax_cpu_activation inp act outp)"
  using assms
  by (cases "neurax_cpu_activation inp act outp")
     (auto simp: neurax_hw_activation_def Let_def wait_for_completion_default write_reg_hw
        after_poll_def)

lemma hw_pooling_result:
  assumes "hardware_available dev" "register_base dev \<noteq> NULL"
    and "poll_status (\<lambda>j. reg_value world j 1) 50000 (reg_reads world) = (e, r)"
  shows "map_option (\<lambda>(e, out, w). (e, out)) (neurax_hw_pooling dev inp c outp world)
           = (if e \<noteq> NEURAX_SUCCESS then Some (e, outp) else neurax_cpu_pooling inp c outp)"
  using assms
  by (cases "neurax_cpu_pooling inp c outp")
     (auto simp: neurax_hw_pooling_def Let_def wait_for_completion_default write_reg_hw
        after_poll_def)

lemma hw_conv2d_result:
  "map_option (\<lambda>(e, out, w). (e, out)) (neurax_hw_conv2d dev inp wts bias c outp world)
     = neurax_cpu_conv2d inp wts bias c outp"
  by (cases "neurax_cpu_conv2d inp wts bias c outp") (auto simp: neurax_hw_conv2d_def Let_def)


lemma poll_status_first_error:
  "status j AND STAT_ERROR \<noteq> 0 \<Longrightarrow>
   poll_status status 50000 j = (NEURAX_ERROR_HARDWARE_FAILURE, Suc j)"
  by (simp add: numeral_eq_Suc)

lemma poll_status_never_done:
  "(\<And>i. status i AND STAT_ERROR = 0 \<and> status i AND STAT_DONE = 0) \<Longrightarrow>
   poll_status status m j = (NEURAX_ERROR_TIMEOUT, j + m)"
  by (induction m arbitrary: j) simp_all

text \<open>
  C2 (as amended). On an initialised, hardware-bound device that is configured to use the
  hardware, let \<open>e\<close> be the outcome of polling the status register for the default timeout
  (50000 rounds): success when the done bit shows, hardware failure when the error bit
  shows, timeout otherwise. For activation and for pooling, called with arguments that
  pass the checks, a failure \<open>e\<close> aborts the call: it is returned as the result and the
  output tensor comes back as it was passed; the CPU kernel runs, and its result is
  returned, exactly when polling ended in success. For convolution the result is always
  the one of the CPU kernel, whatever the status register shows.
\<close>

theorem hardware_failure_aborts_pooling_and_activation:
  assumes "initialized dev" "hardware_available dev" "use_hardware (dev_config dev)"
    and "register_base dev \<noteq> NULL"
    and "poll_status (\<lambda>j. reg_value world j 1) 50000 (reg_reads world) = (e, r)"
  shows "(neurax_validate_tensor (Some inp) = NEURAX_SUCCESS
          \<and> neurax_validate_tensor (Some outp) = NEURAX_SUCCESS
          \<and> width inp = width outp \<and> height inp = height outp
          \<and> channels inp = channels outp \<and> batch_size inp = batch_size outp
          \<longrightarrow> map_option (\<lambda>(e, out, w). (e, out))
                (neurax_activation (Some dev) (Some inp) act (Some outp) world)
              = (if e \<noteq> NEURAX_SUCCESS then Some (e, Some outp)
                 else map_option (\<lambda>(e, out). (e, Some out)) (neurax_cpu_activation inp act outp)))
       \<and> (neurax_validate_tensor (Some inp) = NEURAX_SUCCESS
          \<and> neurax_validate_tensor (Some outp) = NEURAX_SUCCESS
          \<and> neurax_validate_pool_config (Some pc) = NEURAX_SUCCESS
          \<longrightarrow> map_option (\<lambda>(e, out, w). (e, out))
                (neurax_pooling (Some dev) (Some inp) (Some pc) (Some outp) world)
              = (if e \<noteq> NEURAX_SUCCESS then Some (e, Some outp)
                 else map_option (\<lambda>(e, out). (e, Some out)) (neurax_cpu_pooling inp pc outp)))
       \<and> (neurax_validate_tensor (Some inp) = NEURAX_SUCCESS
          \<and> neurax_validate_tensor (Some wts) = NEURAX_SUCCESS
          \<and> neurax_validate_tensor (Some outp) = NEURAX_SUCCESS
          \<and> neurax_validate_conv_config (Some cc) = NEURAX_SUCCESS
          \<and> (bias = None \<or> \<not> use_bias cc \<or> neurax_validate_tensor bias = NEURAX_SUCCESS)
          \<longrightarrow> map_option (\<lambda>(e, out, w). (e, out))
                (neurax_conv2d (Some dev) (Some inp) (Some wts) bias (Some cc) (Some outp) world)
              = map_option (\<lambda>(e, out). (e, Some out)) (neurax_cpu_conv2d inp wts bias cc outp))
       \<and> e \<in> {NEURAX_SUCCESS, NEURAX_ERROR_HARDWARE_FAILURE, NEURAX_ERROR_TIMEOUT}"
proof (intro conjI impI)
  assume v: "neurax_validate_tensor (Some inp) = NEURAX_SUCCESS
          \<and> neurax_validate_tensor (Some outp) = NEURAX_SUCCESS
          \<and> width inp = width outp \<and> height inp = height outp
          \<and> channels inp = channels outp \<and> batch_size inp = batch_size outp"
  have "map_option (\<lambda>(e, out, w). (e, out))
          (neurax_activation (Some dev) (Some inp) act (Some outp) world)
        = map_option (\<lambda>(e, out). (e, Some out))
            (map_option (\<lambda>(e, out, w). (e, out)) (neurax_hw_activation dev inp act outp world))"
    using v assms(1-3)
    by (cases "neurax_hw_activation dev inp act outp world") (auto simp: neurax_activation_def)
  then show "map_option (\<lambda>(e, out, w). (e, out))
                (neurax_activation (Some dev) (Some inp) act (Some outp) world)
              = (if e \<noteq> NEURAX_SUCCESS then Some (e, Some outp)
                 else map_option (\<lambda>(e, out). (e, Some out)) (neurax_cpu_activation inp act outp))"
    by (simp add: hw_activation_result [OF assms(2,4,5)])
next
  assume v: "neurax_validate_tensor (Some inp) = NEURAX_SUCCESS
          \<and> neurax_validate_tensor (Some outp) = NEURAX_SUCCESS
          \<and> neurax_validate_pool_config (Some pc) = NEURAX_SUCCESS"
  have "map_option (\<lambda>(e, out, w). (e, out))
          (neurax_pooling (Some dev) (Some inp) (Some pc) (Some outp) world)
        = map_option (\<lambda>(e, out). (e, Some out))
            (map_option (\<lambda>(e, out, w). (e, out)) (neurax_hw_pooling dev inp pc outp world))"
    using v assms(1-3)
    by (cases "neurax_hw_pooling dev inp pc outp world") (auto simp: neurax_pooling_def)
  then show "map_option (\<lambda>(e, out, w). (e, out))
                (neurax_pooling (Some dev) (Some inp) (Some pc) (Some outp) world)
              = (if e \<noteq> NEURAX_SUCCESS then Some (e, Some outp)
                 else map_option (\<lambda>(e, out). (e, Some out)) (neurax_cpu_pooling inp pc outp))"
    by (simp add: hw_pooling_result [OF assms(2,4,5)])
next
  assume v: "neurax_validate_tensor (Some inp) = NEURAX_SUCCESS
          \<and> neurax_validate_tensor (Some wts) = NEURAX_SUCCESS
          \<and> neurax_validate_tensor (Some outp) = NEURAX_SUCCESS
          \<and> neurax_validate_conv_config (Some cc) = NEURAX_SUCCESS
          \<and> (bias = None \<or> \<not> use_bias cc \<or> neurax_validate_tensor bias = NEURAX_SUCCESS)"
  have "map_option (\<lambda>(e, out, w). (e, out))
          (neurax_conv2d (Some dev) (Some inp) (Some wts) bias (Some cc) (Some outp) world)
        = map_option (\<lambda>(e, out). (e, Some out))
            (map_option (\<lambda>(e, out, w). (e, out)) (neurax_hw_conv2d dev inp wts bias cc outp world))"
    using v assms(1-3)
    by (cases "neurax_hw_conv2d dev inp wts bias cc outp world") (auto simp: neurax_conv2d_def)
  then show "map_option (\<lambda>(e, out, w). (e, out))
                (neurax_conv2d (Some dev) (Some inp) (Some wts) bias (Some cc) (Some outp) world)
              = map_option (\<lambda>(e, out). (e, Some out)) (neurax_cpu_conv2d inp wts bias cc outp)"
    by (simp add: hw_conv2d_result)
next
  show "e \<in> {NEURAX_SUCCESS, NEURAX_ERROR_HARDWARE_FAILURE, NEURAX_ERROR_TIMEOUT}"
    using poll_status_outcome [of "\<lambda>j. reg_value world j 1" 50000 "reg_reads world"] assms(5)
    by simp
qed


theorem hardware_failure_aborts_pooling_and_activation_witness:
  "map_option (\<lambda>(e, out, w). (e, out))
     (neurax_activation (Some dev_hw) (Some (vec_f32 [- 1, 2])) NEURAX_ACTIVATION_RELU
        (Some (vec_f32 [5, 5])) (world_showing STAT_ERROR))
     = Some (NEURAX_ERROR_HARDWARE_FAILURE, Some (vec_f32 [5, 5]))
   \<and> map_option (\<lambda>(e, out, w). (e, out))
     (neurax_pooling (Some dev_hw) (Some (vec_f32 [- 1, 2])) (Some pool1)
        (Some (vec_f32 [5, 5])) (world_showing STAT_ERROR))
     = Some (NEURAX_ERROR_HARDWARE_FAILURE, Some (vec_f32 [5, 5]))"
proof -
  have p: "poll_status (\<lambda>j. reg_value (world_showing STAT_ERROR) j 1) 50000
             (reg_reads (world_showing STAT_ERROR)) = (NEURAX_ERROR_HARDWARE_FAILURE, Suc 0)"
    by (simp add: poll_status_first_error world_showing_def STAT_ERROR_def)
  have d: "initialized dev_hw" "hardware_available dev_hw" "use_hardware (dev_config dev_hw)"
    "register_base dev_hw \<noteq> NULL"
    by (simp_all add: dev_hw_def cfg0_def)
  have v: "neurax_validate_tensor (Some (vec_f32 [- 1, 2])) = NEURAX_SUCCESS"
    "neurax_validate_tensor (Some (vec_f32 [5, 5])) = NEURAX_SUCCESS"
    "neurax_validate_pool_config (Some pool1) = NEURAX_SUCCESS"
    by (simp_all add: neurax_validate_pool_config_def pool1_def NEURAX_POOL_MAX_def
        NEURAX_POOL_AVERAGE_def vec_f32_def neurax_validate_tensor_def neurax_get_element_size_def)
  have s: "width (vec_f32 [- 1, 2]) = width (vec_f32 [5, 5])"
    "height (vec_f32 [- 1, 2]) = height (vec_f32 [5, 5])"
    "channels (vec_f32 [- 1, 2]) = channels (vec_f32 [5, 5])"
    "batch_size (vec_f32 [- 1, 2]) = batch_size (vec_f32 [5, 5])"
    by (simp_all add: vec_f32_def)
  from hardware_failure_aborts_pooling_and_activation [OF d p,
      of "vec_f32 [- 1, 2]" "vec_f32 [5, 5]" NEURAX_ACTIVATION_RELU pool1] v s
  show ?thesis by simp
qed

text \<open>
  C2 as stated fails: with the error bit in the status register, and likewise with a
  status register that never shows done, activation on a hardware-bound device returns the
  failure code and leaves the output untouched, although the CPU kernel on the same
  arguments succeeds with another output.
\<close>

theorem hardware_failure_aborts_counterexample:
  "map_option (\<lambda>(e, out, w). (e, out))
     (neurax_activation (Some dev_hw) (Some (vec_f32 [- 1, 2])) NEURAX_ACTIVATION_RELU
        (Some (vec_f32 [5, 5])) (world_showing STAT_ERROR))
     = Some (NEURAX_ERROR_HARDWARE_FAILURE, Some (vec_f32 [5, 5]))
   \<and> map_option (\<lambda>(e, out, w). (e, out))
     (neurax_activation (Some dev_hw) (Some (vec_f32 [- 1, 2])) NEURAX_ACTIVATION_RELU
        (Some (vec_f32 [5, 5])) (world_showing 0))
     = Some (NEURAX_ERROR_TIMEOUT, Some (vec_f32 [5, 5]))
   \<and> neurax_cpu_activation (vec_f32 [- 1, 2]) NEURAX_ACTIVATION_RELU (vec_f32 [5, 5])
     = Some (NEURAX_SUCCESS, vec_f32 [0, 2])"
proof -
  have d: "initialized dev_hw" "hardware_available dev_hw" "use_hardware (dev_config dev_hw)"
    "register_base dev_hw \<noteq> NULL"
    by (simp_all add: dev_hw_def cfg0_def)
  have p1: "poll_status (\<lambda>j. reg_value (world_showing STAT_ERROR) j 1) 50000
             (reg_reads (world_showing STAT_ERROR)) = (NEURAX_ERROR_HARDWARE_FAILURE, Suc 0)"
    by (simp add: poll_status_first_error world_showing_def STAT_ERROR_def)
  have p2: "poll_status (\<lambda>j. reg_value (world_showing 0) j 1) 50000
             (reg_reads (world_showing 0)) = (NEURAX_ERROR_TIMEOUT, 50000)"
    by (simp add: poll_status_never_done world_showing_def)
  have disp: "neurax_activation (Some dev_hw) (Some (vec_f32 [- 1, 2])) NEURAX_ACTIVATION_RELU
        (Some (vec_f32 [5, 5])) w
      = map_option (\<lambda>(e, out, w). (e, Some out, w))
          (neurax_hw_activation dev_hw (vec_f32 [- 1, 2]) NEURAX_ACTIVATION_RELU (vec_f32 [5, 5]) w)" for w
    using d
    by (cases "neurax_hw_activation dev_hw (vec_f32 [- 1, 2]) NEURAX_ACTIVATION_RELU (vec_f32 [5, 5]) w")
       (auto simp: neurax_activation_def vec_f32_def neurax_validate_tensor_def
          neurax_get_element_size_def)
  have proj: "map_option (\<lambda>(e, out, w). (e, out)) (map_option (\<lambda>(e, out, w). (e, Some out, w)) x)
      = map_option (\<lambda>(e, out). (e, Some out)) (map_option (\<lambda>(e, out, w). (e, out)) x)"
    for x :: "(neurax_error \<times> neurax_tensor \<times> hw_world) option"
    by (cases x) auto
  show ?thesis
    by (simp add: disp proj hw_activation_result [OF d(2,4) p1] hw_activation_result [OF d(2,4) p2]
        cpu_activation_example)
qed


lemma upt_1 [simp]: "[0..<Suc 0] = [0]"
  by simp

lemma cpu_conv2d_example:
  "neurax_cpu_conv2d (vec_f32 [7]) (vec_f32 [1]) None conv_identity (vec_f32 [0])
     = Some (NEURAX_SUCCESS, vec_f32 [7])"
  by (simp add: neurax_cpu_conv2d_def conv_identity_def vec_f32_def memset_zero_def zero_fill_def
      for_u32_def for_range_def conv_cell_def conv_accumulate_def neurax_get_tensor_value_def
      neurax_get_weight_value_def neurax_set_tensor_value_def as_defs ld_def st_def
      neurax_apply_activation_def NEURAX_ACTIVATION_LINEAR_def NEURAX_ACTIVATION_RELU_def
      NEURAX_ACTIVATION_TANH_def NEURAX_ACTIVATION_SIGMOID_def fadd_def fmul_def)

text \<open>
  C5, the hardware leg of convolution. On a hardware-bound device \<open>neurax_hw_conv2d\<close>
  writes the convolution, dimension and activation configuration registers and then the
  control register, but the control value never has the start bit set, and the call makes
  no status read and no sleep: apart from the four stores the hardware is as before. So
  the start-and-poll protocol that pooling and activation follow is absent from
  convolution.
\<close>

theorem hw_conv2d_sets_no_start_and_never_polls:
  assumes "hardware_available dev" "register_base dev \<noteq> NULL"
  shows "map_option (\<lambda>(e, out, w). w) (neurax_hw_conv2d dev inp wts bias cc outp world)
           = map_option
               (\<lambda>r. world\<lparr>reg_writes := reg_writes world @
                        [(2, conv_config_reg cc), (5, dim_config_reg inp),
                         (4, activation cc AND mask 2), (0, conv_control_reg inp cc)]\<rparr>)
               (neurax_cpu_conv2d inp wts bias cc outp)
         \<and> conv_control_reg inp cc AND CTRL_START = 0"
proof
  show "map_option (\<lambda>(e, out, w). w) (neurax_hw_conv2d dev inp wts bias cc outp world)
           = map_option
               (\<lambda>r. world\<lparr>reg_writes := reg_writes world @
                        [(2, conv_config_reg cc), (5, dim_config_reg inp),
                         (4, activation cc AND mask 2), (0, conv_control_reg inp cc)]\<rparr>)
               (neurax_cpu_conv2d inp wts bias cc outp)"
    using assms
    by (cases "neurax_cpu_conv2d inp wts bias cc outp")
       (auto simp: neurax_hw_conv2d_def Let_def write_reg_hw NEURAX_REG_CONV_CONFIG_def
          NEURAX_REG_DIM_CONFIG_def NEURAX_REG_ACT_CONFIG_def NEURAX_REG_CONTROL_def)
  show "conv_control_reg inp cc AND CTRL_START = 0"
    by (simp add: conv_control_reg_def CTRL_START_def CTRL_DATA_WIDTH_def CTRL_CONV_EN_def
        CTRL_ACT_EN_def)
qed

theorem hw_conv2d_sets_no_start_and_never_polls_witness:
  "map_option (\<lambda>(e, out, w). (e, out, reg_writes w, reg_reads w, slept_us w))
     (neurax_hw_conv2d dev_hw (vec_f32 [7]) (vec_f32 [1]) None conv_identity (vec_f32 [0])
        (world_showing STAT_DONE))
     = Some (NEURAX_SUCCESS, vec_f32 [7], [(2, 0), (5, 0x10001), (4, 3), (0, 4)], 0, 0)"
proof -
  have d: "hardware_available dev_hw" "register_base dev_hw \<noteq> NULL"
    by (simp_all add: dev_hw_def)
  have r: "map_option (\<lambda>(e, out, w). (e, out))
      (neurax_hw_conv2d dev_hw (vec_f32 [7]) (vec_f32 [1]) None conv_identity (vec_f32 [0])
        (world_showing STAT_DONE)) = Some (NEURAX_SUCCESS, vec_f32 [7])"
    by (simp add: hw_conv2d_result cpu_conv2d_example)
  from r obtain e out w where x:
    "neurax_hw_conv2d dev_hw (vec_f32 [7]) (vec_f32 [1]) None conv_identity (vec_f32 [0])
        (world_showing STAT_DONE) = Some (e, out, w)"
    "e = NEURAX_SUCCESS" "out = vec_f32 [7]"
    by auto
  from hw_conv2d_sets_no_start_and_never_polls [OF d, of "vec_f32 [7]" "vec_f32 [1]" None
      conv_identity "vec_f32 [0]" "world_showing STAT_DONE"]
  have "w = (world_showing STAT_DONE)\<lparr>reg_writes := reg_writes (world_showing STAT_DONE) @
                        [(2, conv_config_reg conv_identity), (5, dim_config_reg (vec_f32 [7])),
                         (4, activation conv_identity AND mask 2),
                         (0, conv_control_reg (vec_f32 [7]) conv_identity)]\<rparr>"
    by (simp add: x(1) cpu_conv2d_example)
  then have "reg_writes w = [(2, 0), (5, 0x10001), (4, 3), (0, 4)] \<and> reg_reads w = 0 \<and> slept_us w = 0"
    by (simp add: world_showing_def conv_config_reg_def dim_config_reg_def
        conv_control_reg_def conv_identity_def vec_f32_def NEURAX_ACTIVATION_LINEAR_def
        CTRL_CONV_EN_def CTRL_DATA_WIDTH_def CTRL_ACT_EN_def mask_eq_exp_minus_1)
  with x show ?thesis by simp
qed

subsection \<open>Output shape of convolution\<close>

lemma same_shape_refl [simp]: "same_shape a a"
  by (simp add: same_shape_def)

lemma same_shape_data [simp]: "same_shape (a\<lparr>data := d\<rparr>) b = same_shape a b"
  by (simp add: same_shape_def)

lemma set_tensor_value_shape:
  "neurax_set_tensor_value t b y x c v = Some t' \<Longrightarrow> same_shape t' t"
  by (auto simp: neurax_set_tensor_value_def Let_def same_shape_def bind_eq_Some_conv
      split: neurax_data_type.splits)

lemma conv_cell_shape:
  "conv_cell inp wts bias c b oc y x t = Some t' \<Longrightarrow> same_shape t' t"
  by (auto simp: conv_cell_def bind_eq_Some_conv dest: set_tensor_value_shape)

lemma for_u32_preserves:
  assumes "\<And>i s s'. Q s \<Longrightarrow> body i s = Some s' \<Longrightarrow> Q s'"
    and "Q s" and "for_u32 n body s = Some s'"
  shows "Q s'"
  using assms(2,3) unfolding for_u32_def
  by (rule for_range_preserves [rotated]) (rule assms(1))

lemma cpu_conv2d_shape:
  assumes "neurax_cpu_conv2d inp wts bias c outp = Some (e, out)"
  shows "same_shape out outp"
proof (cases "e = NEURAX_SUCCESS")
  case False
  with assms show ?thesis
    by (auto simp: neurax_cpu_conv2d_def Let_def bind_eq_Some_conv split: if_splits)
next
  case True
  let ?oh = "(height inp + 2 * padding_y c - kernel_height c) div stride_y c + 1"
  let ?ow = "(width inp + 2 * padding_x c - kernel_width c) div stride_x c + 1"
  from assms True obtain cleared where
    run: "for_u32 (batch_size inp) (\<lambda>batch.
                 for_u32 (output_channels c) (\<lambda>out_ch.
                   for_u32 ?oh (\<lambda>out_y.
                     for_u32 ?ow (\<lambda>out_x.
                       conv_cell inp wts bias c batch out_ch out_y out_x))))
                 (outp\<lparr>data := Some cleared\<rparr>) = Some out"
    by (auto simp: neurax_cpu_conv2d_def Let_def bind_eq_Some_conv split: if_splits)
  let ?Q = "\<lambda>s. same_shape s outp"
  have "?Q out"
  proof (rule for_u32_preserves [where Q = ?Q, OF _ _ run])
    show "?Q (outp\<lparr>data := Some cleared\<rparr>)" by simp
  next
    fix batch s s'
    assume "?Q s" and "for_u32 (output_channels c) (\<lambda>out_ch.
                   for_u32 ?oh (\<lambda>out_y.
                     for_u32 ?ow (\<lambda>out_x.
                       conv_cell inp wts bias c batch out_ch out_y out_x))) s = Some s'"
    then show "?Q s'"
    proof (rule for_u32_preserves [where Q = ?Q, rotated])
      fix out_ch s s'
      assume "?Q s" and "for_u32 ?oh (\<lambda>out_y.
                     for_u32 ?ow (\<lambda>out_x.
                       conv_cell inp wts bias c batch out_ch out_y out_x)) s = Some s'"
      then show "?Q s'"
      proof (rule for_u32_preserves [where Q = ?Q, rotated])
        fix out_y s s'
        assume "?Q s" and "for_u32 ?ow (\<lambda>out_x.
                       conv_cell inp wts bias c batch out_ch out_y out_x) s = Some s'"
        then show "?Q s'"
        proof (rule for_u32_preserves [where Q = ?Q, rotated])
          fix out_x s s'
          assume "?Q s" and "conv_cell inp wts bias c batch out_ch out_y out_x s = Some s'"
          then show "?Q s'"
            by (auto dest!: conv_cell_shape simp: same_shape_def)
        qed
      qed
    qed
  qed
  then show ?thesis .
qed


lemma out_dim_no_wrap:
  fixes h p k s :: u32
  assumes le: "uint k \<le> uint h + 2 * uint p" and lt: "uint h + 2 * uint p < 2 ^ 32"
    and k: "k \<noteq> 0"
  shows "uint ((h + 2 * p - k) div s + 1) = (uint h + 2 * uint p - uint k) div uint s + 1"
proof -
  have nn: "0 \<le> uint h" "0 \<le> uint p" "0 \<le> uint k" by simp_all
  have "2 * uint p < 2 ^ 32" using lt nn by linarith
  then have "uint (2 :: u32) * uint p < 2 ^ LENGTH(32)" by simp
  then have "uint (2 * p) = uint (2 :: u32) * uint p" by (simp only: uint_mult_lem)
  then have p2: "uint (2 * p) = 2 * uint p" by simp
  have "uint h + uint (2 * p) < 2 ^ LENGTH(32)" using lt p2 by simp
  then have "uint (h + 2 * p) = uint h + uint (2 * p)" by (simp only: uint_add_lem)
  with p2 have hp: "uint (h + 2 * p) = uint h + 2 * uint p" by simp
  have "uint k \<le> uint (h + 2 * p)" using le hp by simp
  then have "uint (h + 2 * p - k) = uint (h + 2 * p) - uint k" by (simp only: uint_sub_lem)
  with hp have sub: "uint (h + 2 * p - k) = uint h + 2 * uint p - uint k" by simp
  have dv: "uint ((h + 2 * p - k) div s) = (uint h + 2 * uint p - uint k) div uint s"
    by (simp only: uint_div sub)
  have "uint k \<noteq> 0" using k by (simp add: uint_0_iff)
  with nn(3) have kpos: "0 < uint k" by linarith
  have "0 \<le> uint h + 2 * uint p - uint k" using le by simp
  moreover have "0 \<le> uint s" by simp
  ultimately have "(uint h + 2 * uint p - uint k) div uint s \<le> uint h + 2 * uint p - uint k"
    using int_div_le_self [of "uint h + 2 * uint p - uint k" "uint s"] by force
  with kpos lt have "(uint h + 2 * uint p - uint k) div uint s + 1 < 2 ^ 32" by linarith
  then have "uint ((h + 2 * p - k) div s) + uint (1 :: u32) < 2 ^ LENGTH(32)"
    using dv by simp
  then have "uint ((h + 2 * p - k) div s + 1) = uint ((h + 2 * p - k) div s) + uint (1 :: u32)"
    by (simp only: uint_add_lem)
  with dv show ?thesis by simp
qed

lemma validate_conv_config_nonzero:
  "neurax_validate_conv_config (Some c) = NEURAX_SUCCESS \<Longrightarrow>
   stride_x c \<noteq> 0 \<and> stride_y c \<noteq> 0 \<and> kernel_width c \<noteq> 0 \<and> kernel_height c \<noteq> 0"
  by (auto simp: neurax_validate_conv_config_def split: if_splits)

lemma conv2d_dispatch:
  assumes "initialized dev"
    and "neurax_validate_tensor (Some inp) = NEURAX_SUCCESS"
    and "neurax_validate_tensor (Some wts) = NEURAX_SUCCESS"
    and "neurax_validate_tensor (Some outp) = NEURAX_SUCCESS"
    and "neurax_validate_conv_config (Some c) = NEURAX_SUCCESS"
    and "bias = None \<or> \<not> use_bias c \<or> neurax_validate_tensor bias = NEURAX_SUCCESS"
  shows "map_option (\<lambda>(e, out, w). (e, out))
           (neurax_conv2d (Some dev) (Some inp) (Some wts) bias (Some c) (Some outp) world)
         = map_option (\<lambda>(e, out). (e, Some out)) (neurax_cpu_conv2d inp wts bias c outp)"
proof (cases "hardware_available dev \<and> use_hardware (dev_config dev)")
  case True
  have "map_option (\<lambda>(e, out, w). (e, out))
          (neurax_conv2d (Some dev) (Some inp) (Some wts) bias (Some c) (Some outp) world)
        = map_option (\<lambda>(e, out). (e, Some out))
            (map_option (\<lambda>(e, out, w). (e, out)) (neurax_hw_conv2d dev inp wts bias c outp world))"
    using assms True
    by (cases "neurax_hw_conv2d dev inp wts bias c outp world") (auto simp: neurax_conv2d_def)
  then show ?thesis by (simp add: hw_conv2d_result)
next
  case False
  with assms show ?thesis
    by (cases "neurax_cpu_conv2d inp wts bias c outp") (auto simp: neurax_conv2d_def)
qed


lemma cpu_conv2d_success_dims:
  assumes "neurax_cpu_conv2d inp wts bias c outp = Some (NEURAX_SUCCESS, out)"
  shows "height outp = (height inp + 2 * padding_y c - kernel_height c) div stride_y c + 1
       \<and> width outp = (width inp + 2 * padding_x c - kernel_width c) div stride_x c + 1"
  using assms
  by (auto simp: neurax_cpu_conv2d_def Let_def split: if_splits)

lemma cpu_conv2d_mismatch:
  assumes "stride_y c \<noteq> 0" "stride_x c \<noteq> 0"
    and "height outp \<noteq> (height inp + 2 * padding_y c - kernel_height c) div stride_y c + 1
       \<or> width outp \<noteq> (width inp + 2 * padding_x c - kernel_width c) div stride_x c + 1"
  shows "neurax_cpu_conv2d inp wts bias c outp = Some (NEURAX_ERROR_INVALID_PARAM, outp)"
  using assms
  by (auto simp: neurax_cpu_conv2d_def Let_def)

text \<open>
  C3 (as amended). For an initialised device, tensors that pass validation and a validated
  configuration, \<open>neurax_conv2d\<close> requires the output tensor to have height
  \<open>(H + 2 * pad_y - Kh) div stride_y + 1\<close> and width \<open>(W + 2 * pad_x - Kw) div stride_x + 1\<close>,
  both evaluated in unsigned 32-bit arithmetic, which wraps. If either dimension differs,
  the call returns \<open>NEURAX_ERROR_INVALID_PARAM\<close> and the output tensor comes back as it was
  passed. Whatever the call returns, the output tensor keeps its shape, element type and
  byte size (it is never resized), and success implies that the two dimensions matched.
  Where nothing wraps, that is for \<open>Kh \<le> H + 2 * pad_y < 2^32\<close> (and likewise in x), the
  required dimension is the integer \<open>floor ((H + 2 * pad_y - Kh) / stride_y) + 1\<close>.
\<close>

theorem conv2d_requires_output_shape:
  assumes "initialized dev"
    and "neurax_validate_tensor (Some inp) = NEURAX_SUCCESS"
    and "neurax_validate_tensor (Some wts) = NEURAX_SUCCESS"
    and "neurax_validate_tensor (Some outp) = NEURAX_SUCCESS"
    and "neurax_validate_conv_config (Some c) = NEURAX_SUCCESS"
    and "bias = None \<or> \<not> use_bias c \<or> neurax_validate_tensor bias = NEURAX_SUCCESS"
  shows "(height outp \<noteq> (height inp + 2 * padding_y c - kernel_height c) div stride_y c + 1
          \<or> width outp \<noteq> (width inp + 2 * padding_x c - kernel_width c) div stride_x c + 1
          \<longrightarrow> map_option (\<lambda>(e, out, w). (e, out))
                (neurax_conv2d (Some dev) (Some inp) (Some wts) bias (Some c) (Some outp) world)
              = Some (NEURAX_ERROR_INVALID_PARAM, Some outp))
       \<and> (\<forall>e out w. neurax_conv2d (Some dev) (Some inp) (Some wts) bias (Some c) (Some outp) world
                       = Some (e, out, w)
            \<longrightarrow> (\<exists>t. out = Some t \<and> same_shape t outp)
                \<and> (e = NEURAX_SUCCESS
                     \<longrightarrow> height outp = (height inp + 2 * padding_y c - kernel_height c) div stride_y c + 1
                       \<and> width outp = (width inp + 2 * padding_x c - kernel_width c) div stride_x c + 1))
       \<and> (uint (kernel_height c) \<le> uint (height inp) + 2 * uint (padding_y c)
            \<and> uint (height inp) + 2 * uint (padding_y c) < 2 ^ 32
          \<longrightarrow> uint ((height inp + 2 * padding_y c - kernel_height c) div stride_y c + 1)
              = (uint (height inp) + 2 * uint (padding_y c) - uint (kernel_height c))
                  div uint (stride_y c) + 1)
       \<and> (uint (kernel_width c) \<le> uint (width inp) + 2 * uint (padding_x c)
            \<and> uint (width inp) + 2 * uint (padding_x c) < 2 ^ 32
          \<longrightarrow> uint ((width inp + 2 * padding_x c - kernel_width c) div stride_x c + 1)
              = (uint (width inp) + 2 * uint (padding_x c) - uint (kernel_width c))
                  div uint (stride_x c) + 1)"
proof -
  note nz = validate_conv_config_nonzero [OF assms(5)]
  note disp = conv2d_dispatch [OF assms, of world]
  have a: "map_option (\<lambda>(e, out, w). (e, out))
                (neurax_conv2d (Some dev) (Some inp) (Some wts) bias (Some c) (Some outp) world)
              = Some (NEURAX_ERROR_INVALID_PARAM, Some outp)"
    if "height outp \<noteq> (height inp + 2 * padding_y c - kernel_height c) div stride_y c + 1
          \<or> width outp \<noteq> (width inp + 2 * padding_x c - kernel_width c) div stride_x c + 1"
    using cpu_conv2d_mismatch [of c outp inp wts bias] nz that disp by simp
  have b: "(\<exists>t. out = Some t \<and> same_shape t outp)
           \<and> (e = NEURAX_SUCCESS
                \<longrightarrow> height outp = (height inp + 2 * padding_y c - kernel_height c) div stride_y c + 1
                  \<and> width outp = (width inp + 2 * padding_x c - kernel_width c) div stride_x c + 1)"
    if r: "neurax_conv2d (Some dev) (Some inp) (Some wts) bias (Some c) (Some outp) world
             = Some (e, out, w)" for e out w
  proof -
    from disp r obtain t where t: "neurax_cpu_conv2d inp wts bias c outp = Some (e, t)" "out = Some t"
      by (cases "neurax_cpu_conv2d inp wts bias c outp") auto
    from cpu_conv2d_shape [OF t(1)] t(2) cpu_conv2d_success_dims [of inp wts bias c outp t] t(1)
    show ?thesis by auto
  qed
  show ?thesis
  proof (intro conjI impI allI)
    assume "uint (kernel_height c) \<le> uint (height inp) + 2 * uint (padding_y c)
            \<and> uint (height inp) + 2 * uint (padding_y c) < 2 ^ 32"
    then show "uint ((height inp + 2 * padding_y c - kernel_height c) div stride_y c + 1)
              = (uint (height inp) + 2 * uint (padding_y c) - uint (kernel_height c))
                  div uint (stride_y c) + 1"
      using out_dim_no_wrap [of "kernel_height c" "height inp" "padding_y c" "stride_y c"] nz
      by blast
  next
    assume "uint (kernel_width c) \<le> uint (width inp) + 2 * uint (padding_x c)
            \<and> uint (width inp) + 2 * uint (padding_x c) < 2 ^ 32"
    then show "uint ((width inp + 2 * padding_x c - kernel_width c) div stride_x c + 1)
              = (uint (width inp) + 2 * uint (padding_x c) - uint (kernel_width c))
                  div uint (stride_x c) + 1"
      using out_dim_no_wrap [of "kernel_width c" "width inp" "padding_x c" "stride_x c"] nz
      by blast
  qed (use a b in blast)+
qed

lemma example_tensors_valid:
  "neurax_validate_tensor (Some (vec_f32 [7])) = NEURAX_SUCCESS"
  "neurax_validate_tensor (Some (vec_f32 [1])) = NEURAX_SUCCESS"
  "neurax_validate_tensor (Some (vec_f32 [5])) = NEURAX_SUCCESS"
  "neurax_validate_tensor (Some (vec_f32 [1, 2])) = NEURAX_SUCCESS"
  by (simp_all add: vec_f32_def neurax_validate_tensor_def neurax_get_element_size_def)

lemma example_configs_valid:
  "neurax_validate_conv_config (Some conv_identity) = NEURAX_SUCCESS"
  "neurax_validate_conv_config (Some conv_wrapping_pad) = NEURAX_SUCCESS"
  by (simp_all add: neurax_validate_conv_config_def conv_identity_def conv_wrapping_pad_def
      NEURAX_ACTIVATION_LINEAR_def)

theorem conv2d_requires_output_shape_witness:
  "map_option (\<lambda>(e, out, w). (e, out))
     (neurax_conv2d (Some dev_emulated) (Some (vec_f32 [7])) (Some (vec_f32 [1])) None
        (Some conv_identity) (Some (vec_f32 [1, 2])) (world_showing 0))
     = Some (NEURAX_ERROR_INVALID_PARAM, Some (vec_f32 [1, 2]))
   \<and> uint ((height (vec_f32 [7]) + 2 * padding_y conv_identity - kernel_height conv_identity)
             div stride_y conv_identity + 1) = 1"
proof -
  have i: "initialized dev_emulated" by (simp add: dev_emulated_def)
  have w: "width (vec_f32 [1, 2])
      \<noteq> (width (vec_f32 [7]) + 2 * padding_x conv_identity - kernel_width conv_identity)
            div stride_x conv_identity + 1"
    by (simp add: vec_f32_def conv_identity_def)
  have n: "uint (kernel_height conv_identity)
        \<le> uint (height (vec_f32 [7])) + 2 * uint (padding_y conv_identity)
      \<and> uint (height (vec_f32 [7])) + 2 * uint (padding_y conv_identity) < 2 ^ 32"
    by (simp add: vec_f32_def conv_identity_def)
  from conv2d_requires_output_shape [OF i example_tensors_valid(1) example_tensors_valid(2)
      example_tensors_valid(4) example_configs_valid(1), of None "world_showing 0"] w n
  show ?thesis
    by (simp add: vec_f32_def conv_identity_def)
qed

text \<open>
  C3 as stated fails where the arithmetic wraps. With padding \<open>2^31\<close> on both axes, a
  \<open>1\<times>1\<close> kernel and stride 1 on a \<open>1\<times>1\<close> input, the configuration passes validation and
  the formula of the claim asks for an output of height \<open>2^32 + 1\<close>; the call succeeds on a
  \<open>1\<times>1\<close> output.
\<close>

theorem conv2d_output_shape_counterexample:
  "neurax_validate_conv_config (Some conv_wrapping_pad) = NEURAX_SUCCESS
   \<and> neurax_conv2d (Some dev_emulated) (Some (vec_f32 [7])) (Some (vec_f32 [1])) None
        (Some conv_wrapping_pad) (Some (vec_f32 [5])) (world_showing 0)
     = Some (NEURAX_SUCCESS, Some (vec_f32 [0]), world_showing 0)
   \<and> uint (height (vec_f32 [5])) = 1
   \<and> (uint (height (vec_f32 [7])) + 2 * uint (padding_y conv_wrapping_pad)
        - uint (kernel_height conv_wrapping_pad)) div uint (stride_y conv_wrapping_pad) + 1
     = 4294967297"
proof -
  have k: "neurax_cpu_conv2d (vec_f32 [7]) (vec_f32 [1]) None conv_wrapping_pad (vec_f32 [5])
     = Some (NEURAX_SUCCESS, vec_f32 [0])"
    by (simp add: neurax_cpu_conv2d_def conv_wrapping_pad_def vec_f32_def memset_zero_def
      zero_fill_def for_u32_def for_range_def conv_cell_def conv_accumulate_def
      neurax_set_tensor_value_def as_defs ld_def st_def
      neurax_apply_activation_def NEURAX_ACTIVATION_LINEAR_def NEURAX_ACTIVATION_RELU_def
      NEURAX_ACTIVATION_TANH_def NEURAX_ACTIVATION_SIGMOID_def)
  have "neurax_conv2d (Some dev_emulated) (Some (vec_f32 [7])) (Some (vec_f32 [1])) None
        (Some conv_wrapping_pad) (Some (vec_f32 [5])) (world_showing 0)
     = Some (NEURAX_SUCCESS, Some (vec_f32 [0]), world_showing 0)"
    by (simp add: neurax_conv2d_def example_tensors_valid example_configs_valid k dev_emulated_def)
  then show ?thesis
    by (simp add: example_configs_valid) (simp add: vec_f32_def conv_wrapping_pad_def)
qed

subsection \<open>Average pooling and its divisor\<close>

text \<open>
  The window scan as a fold over the in-bounds taps: for average pooling the scan returns
  the float32 sum of the values at \<open>window_taps\<close>, accumulated in scan order from 0, and
  the number of those taps.
\<close>

lemma foldl_bind_None: "foldl (\<lambda>acc t. Option.bind acc (step t)) None ts = None"
  by (induction ts) simp_all

lemma foldl_bind_filter:
  assumes "\<And>i s. body i s = (if P (g i) then step (g i) s else Some s)"
  shows "foldl (\<lambda>acc i. Option.bind acc (body i)) a xs
       = foldl (\<lambda>acc t. Option.bind acc (step t)) a (filter P (map g xs))"
proof (induction xs arbitrary: a)
  case Nil
  show ?case by simp
next
  case (Cons x xs)
  show ?case
  proof (cases a)
    case None
    then show ?thesis by (simp add: foldl_bind_None)
  next
    case (Some s)
    with assms [of x s] show ?thesis by (simp add: Cons.IH)
  qed
qed

lemma foldl_bind_concat:
  "foldl (\<lambda>acc y. Option.bind acc (\<lambda>s. foldl (\<lambda>acc t. Option.bind acc (step t)) (Some s) (h y))) a ys
     = foldl (\<lambda>acc t. Option.bind acc (step t)) a (concat (map h ys))"
proof (induction ys arbitrary: a)
  case Nil
  show ?case by simp
next
  case (Cons y ys)
  show ?case
  proof (cases a)
    case None
    then show ?thesis by (simp add: foldl_bind_None)
  next
    case (Some s)
    then show ?thesis by (simp add: Cons.IH)
  qed
qed

lemma foldl_bind_taps:
  "foldl (\<lambda>acc t. Option.bind acc (\<lambda>(s, c). Option.bind (get t) (\<lambda>v. Some (fadd s v, c + 1))))
       (Some (s0, c0 :: u32)) ts
     = map_option (\<lambda>vals. (foldl fadd s0 vals, c0 + of_nat (length vals))) (those (map get ts))"
proof (induction ts arbitrary: s0 c0)
  case Nil
  show ?case by simp
next
  case (Cons t ts)
  show ?case
  proof (cases "get t")
    case None
    then show ?thesis by (simp add: foldl_bind_None)
  next
    case (Some v)
    then show ?thesis
      by (simp add: Cons.IH option.map_comp comp_def add.assoc)
  qed
qed

lemma pool_window_average:
  assumes "pool_type config \<noteq> NEURAX_POOL_MAX"
  shows "pool_window input config batch ch out_y out_x
       = map_option (\<lambda>vals. (foldl fadd 0 vals, of_nat (length vals)))
           (tap_values input config batch ch out_y out_x)"
proof -
  let ?step = "\<lambda>(in_y, in_x) (s, c :: u32).
      Option.bind (neurax_get_tensor_value input batch in_y in_x ch) (\<lambda>v. Some (fadd s v, c + 1))"
  let ?P = "\<lambda>(in_y, in_x). in_y < height input \<and> in_x < width input"
  let ?row = "\<lambda>py. map (\<lambda>px. (out_y * pstride_y config + py,
                               out_x * pstride_x config + of_nat px)) [0..<unat (pool_width config)]"
  have inner: "for_u32 (pool_width config) (\<lambda>px (pool_result, valid_count).
         let in_y = out_y * pstride_y config + py;
             in_x = out_x * pstride_x config + px
         in if in_y < height input \<and> in_x < width input
            then do {
              val \<leftarrow> neurax_get_tensor_value input batch in_y in_x ch;
              Some (if pool_type config = NEURAX_POOL_MAX
                    then (if val > pool_result \<or> valid_count = 0 then val else pool_result)
                    else fadd pool_result val,
                    valid_count + 1) }
            else Some (pool_result, valid_count))
      = (\<lambda>s. foldl (\<lambda>acc t. Option.bind acc (?step t)) (Some s) (filter ?P (?row py)))" for py
    unfolding for_u32_def for_range_def
    by (rule ext, subst foldl_bind_filter [where P = ?P and step = ?step
          and g = "\<lambda>px. (out_y * pstride_y config + py, out_x * pstride_x config + of_nat px)"])
       (simp_all add: assms Let_def split: prod.splits)
  have "pool_window input config batch ch out_y out_x
      = foldl (\<lambda>acc t. Option.bind acc (?step t)) (Some (0, 0))
          (concat (map (\<lambda>py. filter ?P (?row (of_nat py))) [0..<unat (pool_height config)]))"
    unfolding pool_window_def
    by (simp only: inner) (simp only: for_u32_def for_range_def foldl_bind_concat assms if_False)
  also have "concat (map (\<lambda>py. filter ?P (?row (of_nat py))) [0..<unat (pool_height config)])
      = window_taps input config out_y out_x"
    by (simp add: window_taps_def filter_concat comp_def)
  also have "foldl (\<lambda>acc t. Option.bind acc (?step t)) (Some (0, 0)) (window_taps input config out_y out_x)
      = map_option (\<lambda>vals. (foldl fadd 0 vals, of_nat (length vals)))
          (tap_values input config batch ch out_y out_x)"
    using foldl_bind_taps [of "\<lambda>(in_y, in_x). neurax_get_tensor_value input batch in_y in_x ch" 0 0
        "window_taps input config out_y out_x"]
    by (simp add: tap_values_def case_prod_unfold)
  finally show ?thesis .
qed

lemma pool_cell_average:
  assumes "pool_type config = NEURAX_POOL_AVERAGE"
  shows "pool_cell input config batch ch out_y out_x output
       = do {
           vals \<leftarrow> tap_values input config batch ch out_y out_x;
           neurax_set_tensor_value output batch out_y out_x ch
             (if (of_nat (length vals) :: u32) = 0 then foldl fadd 0 vals
              else fdiv (foldl fadd 0 vals) (float_of_uint32 (of_nat (length vals))))
         }"
proof -
  have "pool_type config \<noteq> NEURAX_POOL_MAX"
    using assms by (simp add: NEURAX_POOL_AVERAGE_def NEURAX_POOL_MAX_def)
  then show ?thesis
    by (cases "tap_values input config batch ch out_y out_x")
       (auto simp: pool_cell_def pool_window_average assms word_greater_zero_iff)
qed

text \<open>
  Runs of the kernel. On the 3 by 3 input the output is 1 by 1 and its window is full. The
  cell routine on a window that leaves the 3 by 3 input at the right edge, and the kernel
  on an input narrower than the window, divide by 2, the number of taps inside.
\<close>

lemmas pool_eval_defs =
  pool_window_def pool_cell_def pool_avg2_def pool_avg2_far_def grid3_def grid2_def col2_def
  vec_f32_def for_u32_def for_range_def
  neurax_get_tensor_value_def neurax_set_tensor_value_def as_defs ld_def st_def
  NEURAX_POOL_AVERAGE_def NEURAX_POOL_MAX_def float_of_uint32_def

lemma pool_window_3x3:
  "pool_window (grid3 [a0, a1, a2, a3, a4, a5, a6, a7, a8]) pool_avg2 0 0 0 0
     = Some (fadd (fadd (fadd (fadd 0 a0) a1) a3) a4, 4)"
  by (simp add: pool_eval_defs)

lemma cpu_pooling_3x3:
  "neurax_cpu_pooling (grid3 [a0, a1, a2, a3, a4, a5, a6, a7, a8]) pool_avg2 (vec_f32 [y])
     = Some (NEURAX_SUCCESS, vec_f32 [fdiv (fadd (fadd (fadd (fadd 0 a0) a1) a3) a4) 4])"
  by (simp add: neurax_cpu_pooling_def memset_zero_def zero_fill_def pool_eval_defs)

lemma pool_cell_3x3_right_edge:
  "pool_cell (grid3 [a0, a1, a2, a3, a4, a5, a6, a7, a8]) pool_avg2 0 0 0 1 (grid2 [y0, y1, y2, y3])
     = Some (grid2 [y0, fdiv (fadd (fadd 0 a2) a5) 2, y2, y3])"
  by (simp add: pool_eval_defs)

lemma cpu_pooling_col2:
  "neurax_cpu_pooling (col2 [a, b]) pool_avg2_far (vec_f32 [y0, y1])
     = Some (NEURAX_SUCCESS, vec_f32 [fdiv (fadd (fadd 0 a) b) 2, fdiv (fadd (fadd 0 a) b) 2])"
proof -
  have r: "replicate 2 (0 :: real) = [0, 0]"
    by (simp add: numeral_2_eq_2)
  show ?thesis
    by (simp add: neurax_cpu_pooling_def memset_zero_def zero_fill_def pool_eval_defs r)
qed

lemma pooling_col2:
  "neurax_pooling (Some dev_emulated) (Some (col2 [a, b])) (Some pool_avg2_far)
       (Some (vec_f32 [y0, y1])) world
     = Some (NEURAX_SUCCESS,
             Some (vec_f32 [fdiv (fadd (fadd 0 a) b) 2, fdiv (fadd (fadd 0 a) b) 2]), world)"
proof -
  have "neurax_validate_tensor (Some (col2 [a, b])) = NEURAX_SUCCESS"
    "neurax_validate_tensor (Some (vec_f32 [y0, y1])) = NEURAX_SUCCESS"
    by (simp_all add: col2_def vec_f32_def neurax_validate_tensor_def neurax_get_element_size_def)
  moreover have "neurax_validate_pool_config (Some pool_avg2_far) = NEURAX_SUCCESS"
    by (simp add: neurax_validate_pool_config_def pool_avg2_far_def NEURAX_POOL_AVERAGE_def)
  ultimately show ?thesis
    by (simp add: neurax_pooling_def dev_emulated_def cpu_pooling_col2)
qed

lemma cpu_pooling_mismatch:
  assumes "pstride_y c \<noteq> 0" "pstride_x c \<noteq> 0"
    and "height outp \<noteq> (height inp - pool_height c) div pstride_y c + 1
       \<or> width outp \<noteq> (width inp - pool_width c) div pstride_x c + 1"
  shows "neurax_cpu_pooling inp c outp = Some (NEURAX_ERROR_INVALID_PARAM, outp)"
  using assms
  by (auto simp: neurax_cpu_pooling_def Let_def)

text \<open>
  The sum is a float32 sum: \<open>2^24 + 1\<close> is not a binary32 value and rounds to \<open>2^24\<close>, so
  the window \<open>2^24, 1, 0, 0\<close> averages to \<open>2^22\<close>.
\<close>

lemma floor_log2_eq:
  assumes "2 ^ n \<le> x" "x < 2 ^ Suc n"
  shows "\<lfloor>log 2 x\<rfloor> = int n"
proof -
  have x: "0 < x" using assms(1) by (meson less_le_trans zero_less_numeral zero_less_power)
  have "real n \<le> log 2 x" using assms(1) x by (simp add: le_log_iff powr_realpow)
  moreover have "log 2 x < real n + 1"
    using assms(2) x by (simp add: log_less_iff powr_add powr_realpow)
  ultimately show ?thesis by (simp add: floor_eq_iff)
qed

lemma f32_ties_to_even: "f32 16777217 = 16777216"
proof -
  have "\<lfloor>log 2 (16777217 :: real)\<rfloor> = int 24"
    by (rule floor_log2_eq) simp_all
  then have u: "float_ulp 16777217 = 2"
    by (simp add: float_ulp_def)
  have "round_even (16777217 / 2) = 8388608"
    by (simp add: round_even_def)
  with u show ?thesis by (simp add: f32_def)
qed

lemma f32_two_pow_24: "f32 16777216 = 16777216"
  using f32_exact [of 8388608 1] by simp

lemma cpu_pooling_rounds:
  "neurax_cpu_pooling (grid3 [16777216, 1, 5, 0, 0, 5, 5, 5, 5]) pool_avg2 (vec_f32 [0])
     = Some (NEURAX_SUCCESS, vec_f32 [4194304])"
  by (simp add: cpu_pooling_3x3 fadd_def fdiv_def f32_two_pow_24 f32_ties_to_even)

lemma f32_small_halves: "f32 (7 / 2) = 7 / 2" "f32 (9 / 2) = 9 / 2"
  using f32_halves [of 7] f32_halves [of 9] by simp_all

lemma tap_values_3x3:
  "tap_values (grid3 [1, 2, 3, 4, 5, 6, 7, 8, 9]) pool_avg2 0 0 0 0 = Some [1, 2, 4, 5]"
  "tap_values (grid3 [1, 2, 3, 4, 5, 6, 7, 8, 9]) pool_avg2 0 0 0 1 = Some [3, 6]"
  by (simp_all add: tap_values_def window_taps_def pool_avg2_def grid3_def
      neurax_get_tensor_value_def as_defs ld_def upt_2)





subsection \<open>Well-formed tensors\<close>

lemma well_formedD:
  assumes "well_formed t"
  obtains b where "data t = Some b" "buffer_type b = data_type t"
    "buffer_len b = unat (width t) * unat (height t) * unat (channels t) * unat (batch_size t)"
    "0 < buffer_len b" "buffer_len b < 2 ^ 32"
    "unat (data_size t) = buffer_len b * unat (neurax_get_element_size (data_type t))"
  using assms by (auto simp: well_formed_def split: option.splits)

lemma unat_element_size:
  "unat (neurax_get_element_size ty) \<in> {1, 2, 4}"
  by (cases ty) (simp_all add: neurax_get_element_size_def)

lemma well_formed_valid:
  assumes "well_formed t"
  shows "neurax_validate_tensor (Some t) = NEURAX_SUCCESS"
proof -
  define n where "n = unat (width t) * unat (height t) * unat (channels t) * unat (batch_size t)"
  from assms obtain b where b: "data t = Some b" "buffer_len b = n" "0 < buffer_len b"
    "buffer_len b < 2 ^ 32"
    "unat (data_size t) = buffer_len b * unat (neurax_get_element_size (data_type t))"
    unfolding n_def by (rule well_formedD)
  have n: "0 < n" "n < 2 ^ 32" using b(2,3,4) by simp_all
  have nz: "width t \<noteq> 0" "height t \<noteq> 0" "channels t \<noteq> 0" "batch_size t \<noteq> 0"
    using n(1) unfolding n_def by (auto simp: unat_eq_zero [symmetric] simp del: unat_eq_zero)
  have prod: "unat (width t * height t * channels t * batch_size t) = n"
  proof (rule of_nat_inverse)
    show "word_of_nat n = width t * height t * channels t * batch_size t"
      by (simp add: n_def)
    show "n < 2 ^ LENGTH(32)" using n(2) by simp
  qed
  let ?p = "ucast (width t * height t * channels t * batch_size t) :: size_t"
  have "uint ?p = uint (width t * height t * channels t * batch_size t)"
    by (rule uint_up_ucast) (simp add: is_up)
  then have "unat ?p = unat (width t * height t * channels t * batch_size t)"
    by (simp only: unat_eq_nat_uint)
  with prod have up: "unat ?p = n" by simp
  define e where "e = unat (neurax_get_element_size (data_type t))"
  have es: "e \<le> 4"
    using unat_element_size [of "data_type t"] by (auto simp: e_def)
  have "n * e \<le> n * 4" using es by simp
  also have "\<dots> < 2 ^ 64" using n(2) by simp
  finally have "n * e < 2 ^ LENGTH(64)" by simp
  then have "unat (?p * neurax_get_element_size (data_type t)) = n * e"
    by (simp only: unat_word_ariths up mod_less e_def)
  with b(2,5) have "data_size t = ?p * neurax_get_element_size (data_type t)"
    by (simp add: word_unat_eq_iff e_def)
  with b(1) nz show ?thesis
    by (simp add: neurax_validate_tensor_def Let_def)
qed


subsection \<open>Identity convolution on a tall tensor\<close>

lemma sint_of_nat_small:
  assumes "y < 2 ^ 31"
  shows "sint (of_nat y :: u32) = int y"
proof -
  have "(of_nat y :: u32) = word_of_int (int y)" by simp
  then have "sint (of_nat y :: u32) = (int y + 2 ^ 31) mod 2 ^ 32 - 2 ^ 31"
    by (simp only: int_word_sint) simp
  moreover have "(int y + 2 ^ 31) mod 2 ^ 32 = int y + 2 ^ 31"
    using assms by (intro mod_pos_pos_trivial) simp_all
  ultimately show ?thesis by simp
qed

lemma for_u32_one: "for_u32 1 body s = body 0 s"
  by (simp add: for_u32_def for_range_def)


lemma fill_next:
  assumes "k < length xs"
  shows "(take k xs @ replicate (length xs - k) (0::real))[k := xs ! k]
           = take (Suc k) xs @ replicate (length xs - Suc k) 0"
proof -
  from assms have r: "replicate (length xs - k) (0::real) = 0 # replicate (length xs - Suc k) 0"
    by (metis Suc_diff_Suc replicate_Suc)
  have "(take k xs @ replicate (length xs - k) (0::real))[k := xs ! k]
      = take k xs @ (replicate (length xs - k) (0::real))[0 := xs ! k]"
    using assms by (simp add: list_update_append)
  also have "\<dots> = take k xs @ xs ! k # replicate (length xs - Suc k) 0"
    by (simp add: r)
  also have "\<dots> = take (Suc k) xs @ replicate (length xs - Suc k) 0"
    using assms by (simp add: take_Suc_conv_app_nth)
  finally show ?thesis .
qed


lemma conv_identity_fields [simp]:
  "kernel_width conv_identity = 1" "kernel_height conv_identity = 1"
  "stride_x conv_identity = 1" "stride_y conv_identity = 1"
  "padding_x conv_identity = 0" "padding_y conv_identity = 0"
  "input_channels conv_identity = 1" "output_channels conv_identity = 1"
  "use_bias conv_identity = False" "activation conv_identity = NEURAX_ACTIVATION_LINEAR"
  by (simp_all add: conv_identity_def)


lemma tall_well_formed: "well_formed (tall v)"
  by (simp add: well_formed_def tall_def buffer_type_def buffer_len_def neurax_get_element_size_def)

lemma tall_fields [simp]:
  "width (tall v) = 1" "height (tall v) = 0x80000000" "channels (tall v) = 1"
  "batch_size (tall v) = 1" "data_type (tall v) = NEURAX_DATA_FLOAT32"
  "data (tall v) = Some (F32 (replicate (2 ^ 31) v))"
  by (simp_all add: tall_def)

lemma tall_cell:
  assumes "i < 2 ^ 31"
  shows "conv_cell (tall 1) (vec_f32 [1]) None conv_identity 0 0 (of_nat i) 0 (tall 0) = Some (tall 0)"
proof -
  have si: "sint (of_nat i :: u32) = int i" using assms by (rule sint_of_nat_small)
  have "\<not> sint (of_nat i :: u32) < sint (0x80000000 :: u32)"
    by (simp only: si) simp
  then have acc: "conv_accumulate (tall 1) (vec_f32 [1]) conv_identity 0 0 (of_nat i) 0 = Some 0"
    by (simp add: conv_accumulate_def for_u32_one)
  have "i \<le> unat (0x80000000 :: u32)" using assms by simp
  then have ui: "unat (of_nat i :: u32) = i" by (rule le_unat_uoi)
  have "neurax_set_tensor_value (tall 0) 0 (of_nat i) 0 0 0 = Some (tall 0)"
    using assms ui
    by (simp add: neurax_set_tensor_value_def as_defs st_def)
       (simp add: tall_def list_update_same_conv)
  with acc show ?thesis
    by (simp add: conv_cell_def neurax_apply_activation_def NEURAX_ACTIVATION_LINEAR_def
        NEURAX_ACTIVATION_RELU_def NEURAX_ACTIVATION_TANH_def NEURAX_ACTIVATION_SIGMOID_def)
qed

lemma tall_conv:
  "neurax_cpu_conv2d (tall 1) (vec_f32 [1]) None conv_identity (tall 5) = Some (NEURAX_SUCCESS, tall 0)"
proof -
  have ms: "memset_zero (data (tall 5)) (data_size (tall 5)) = Some (F32 (replicate (2 ^ 31) 0))"
    by (simp add: tall_def memset_zero_def zero_fill_def)
  have st: "(tall 5)\<lparr>data := Some (F32 (replicate (2 ^ 31) 0))\<rparr> = tall 0"
    by (simp add: tall_def)
  have "\<exists>s'. for_range (2 ^ 31) (\<lambda>i. for_u32 1 (\<lambda>out_x.
            conv_cell (tall 1) (vec_f32 [1]) None conv_identity 0 0 (of_nat i) out_x)) (tall 0) = Some s'
          \<and> s' = tall 0"
    by (rule for_range_total [where P = "\<lambda>i s. s = tall 0"]) (simp_all add: for_u32_one tall_cell)
  then have loop: "for_u32 0x80000000 (\<lambda>out_y. for_u32 1 (\<lambda>out_x.
            conv_cell (tall 1) (vec_f32 [1]) None conv_identity 0 0 out_y out_x)) (tall 0) = Some (tall 0)"
    by (simp add: for_u32_def)
  show ?thesis
    using ms st loop
    by (simp add: neurax_cpu_conv2d_def for_u32_one)
qed

text \<open>
  Pooling with a 1 by 1 window on the same tensor: the bounds test compares unsigned, every
  cell reads its element, and after \<open>i\<close> cells the output is \<open>tall_upto i\<close>.
\<close>

lemma tall_upto_ends: "tall_upto 0 = tall 0" "tall_upto (2 ^ 31) = tall 1"
  by (simp_all add: tall_upto_def tall_def)

lemma tall_pool_cell:
  assumes "i < 2 ^ 31"
  shows "pool_cell (tall 1) pool1 0 0 (of_nat i) 0 (tall_upto i) = Some (tall_upto (Suc i))"
proof -
  have "i \<le> unat (0x80000000 :: u32)" using assms by simp
  then have ui: "unat (of_nat i :: u32) = i" by (rule le_unat_uoi)
  then have lt: "(of_nat i :: u32) < 0x80000000"
    using assms by (simp add: word_less_nat_alt)
  have win: "pool_window (tall 1) pool1 0 0 (of_nat i) 0 = Some (1, 1)"
    using assms ui lt
    by (simp add: pool_window_def pool1_def for_u32_one neurax_get_tensor_value_def as_defs ld_def
        NEURAX_POOL_MAX_def)
  have upd: "(replicate i 1 @ replicate (2 ^ 31 - i) (0::real))[i := 1]
           = replicate (Suc i) 1 @ replicate (2 ^ 31 - Suc i) 0"
    using fill_next [of i "replicate (2 ^ 31) (1::real)"] assms by simp
  have set: "neurax_set_tensor_value (tall_upto i) 0 (of_nat i) 0 0 1
        = Some ((tall_upto i)\<lparr>data := Some (F32 ((replicate i 1 @ replicate (2 ^ 31 - i) 0)[i := 1]))\<rparr>)"
    using assms ui
    by (simp add: neurax_set_tensor_value_def as_defs st_def tall_upto_def)
  have nxt: "(tall_upto i)\<lparr>data := Some (F32 (replicate (Suc i) 1 @ replicate (2 ^ 31 - Suc i) 0))\<rparr>
        = tall_upto (Suc i)"
    by (simp add: tall_upto_def)
  have "neurax_set_tensor_value (tall_upto i) 0 (of_nat i) 0 0 1 = Some (tall_upto (Suc i))"
    by (simp only: set upd nxt)
  with win show ?thesis
    by (simp add: pool_cell_def pool1_def NEURAX_POOL_MAX_def NEURAX_POOL_AVERAGE_def)
qed

lemma tall_pool:
  "neurax_cpu_pooling (tall 1) pool1 (tall 5) = Some (NEURAX_SUCCESS, tall 1)"
proof -
  have ms: "memset_zero (data (tall 5)) (data_size (tall 5)) = Some (F32 (replicate (2 ^ 31) 0))"
    by (simp add: tall_def memset_zero_def zero_fill_def)
  have st: "(tall 5)\<lparr>data := Some (F32 (replicate (2 ^ 31) 0))\<rparr> = tall 0"
    by (simp add: tall_def)
  have "\<exists>s'. for_range (2 ^ 31) (\<lambda>i. for_u32 1 (\<lambda>out_x.
            pool_cell (tall 1) pool1 0 0 (of_nat i) out_x)) (tall_upto 0) = Some s'
          \<and> s' = tall_upto (2 ^ 31)"
    by (rule for_range_total [where P = "\<lambda>i s. s = tall_upto i"])
       (simp_all add: for_u32_one tall_pool_cell)
  then have "for_range (2 ^ 31) (\<lambda>i. for_u32 1 (\<lambda>out_x.
            pool_cell (tall 1) pool1 0 0 (of_nat i) out_x)) (tall 0) = Some (tall 1)"
    by (simp only: tall_upto_ends) simp
  then have loop: "for_u32 0x80000000 (\<lambda>out_y. for_u32 1 (\<lambda>out_x.
            pool_cell (tall 1) pool1 0 0 out_y out_x)) (tall 0) = Some (tall 1)"
    by (simp add: for_u32_def)
  show ?thesis
    using ms st loop
    by (simp add: neurax_cpu_pooling_def for_u32_one pool1_def)
qed

text \<open>
  C8. The identity convolution (1 by 1 kernel, stride 1, padding 0, one weight 1.0, no
  bias, linear activation) does not reproduce every valid input. The one-column float32
  tensor of height \<open>2^31\<close> with every element 1, the weight and the configuration pass
  validation; \<open>neurax_conv2d\<close> returns \<open>NEURAX_SUCCESS\<close> and leaves the output all zeros,
  so element 0 reads 0 where the input has 1. The kernel compares the signed tap row with
  \<open>(int32_t) input->height\<close>, which is negative for this height, so every tap fails the
  bounds test. Pooling, whose bounds test compares unsigned, copies the same tensor
  through a 1 by 1 window.
\<close>

theorem conv2d_identity_zeroes_tall_input:
  "neurax_validate_tensor (Some (tall 1)) = NEURAX_SUCCESS
   \<and> neurax_validate_tensor (Some (tall 5)) = NEURAX_SUCCESS
   \<and> neurax_validate_tensor (Some (vec_f32 [1])) = NEURAX_SUCCESS
   \<and> neurax_validate_conv_config (Some conv_identity) = NEURAX_SUCCESS
   \<and> neurax_conv2d (Some dev_emulated) (Some (tall 1)) (Some (vec_f32 [1])) None
        (Some conv_identity) (Some (tall 5)) (world_showing 0)
     = Some (NEURAX_SUCCESS, Some (tall 0), world_showing 0)
   \<and> neurax_get_tensor_value (tall 1) 0 0 0 0 = Some 1
   \<and> neurax_get_tensor_value (tall 0) 0 0 0 0 = Some 0
   \<and> neurax_pooling (Some dev_emulated) (Some (tall 1)) (Some pool1) (Some (tall 5))
        (world_showing 0)
     = Some (NEURAX_SUCCESS, Some (tall 1), world_showing 0)"
proof -
  have "neurax_conv2d (Some dev_emulated) (Some (tall 1)) (Some (vec_f32 [1])) None
        (Some conv_identity) (Some (tall 5)) (world_showing 0)
     = Some (NEURAX_SUCCESS, Some (tall 0), world_showing 0)"
    by (simp add: neurax_conv2d_def well_formed_valid tall_well_formed example_tensors_valid
        example_configs_valid tall_conv dev_emulated_def)
  moreover have "neurax_get_tensor_value (tall v) 0 0 0 0 = Some v" for v
    by (simp add: neurax_get_tensor_value_def as_defs ld_def)
  moreover have "neurax_validate_pool_config (Some pool1) = NEURAX_SUCCESS"
    by (simp add: neurax_validate_pool_config_def pool1_def NEURAX_POOL_MAX_def
        NEURAX_POOL_AVERAGE_def)
  then have "neurax_pooling (Some dev_emulated) (Some (tall 1)) (Some pool1) (Some (tall 5))
        (world_showing 0)
     = Some (NEURAX_SUCCESS, Some (tall 1), world_showing 0)"
    by (simp add: neurax_pooling_def well_formed_valid tall_well_formed tall_pool dev_emulated_def)
  ultimately show ?thesis
    by (simp add: tall_well_formed well_formed_valid example_tensors_valid example_configs_valid)
qed

end
